theory Spec2Isabelle
  imports Complex_Main
begin

section \<open>JavaScript values the handlers inspect\<close>

text \<open>
  A form field, a query parameter or a JSON body member the handlers of \<^verbatim>\<open>server.js\<close>
  read as a string is \<open>None\<close> when it is absent (\<^verbatim>\<open>undefined\<close>) and \<open>Some s\<close> when it
  carries the string \<open>s\<close>. \<^verbatim>\<open>!v\<close> is true for \<^verbatim>\<open>undefined\<close> and for the empty string.
\<close>

definition truthy :: "string option \<Rightarrow> bool" where
  "truthy v = (case v of None \<Rightarrow> False | Some s \<Rightarrow> s \<noteq> [])"

text \<open>
  A JavaScript number. The finite doubles are rationals; the handlers only compare
  numbers for equality, where \<open>-0\<close> and \<open>0\<close> are the same number.
\<close>

datatype jsnum = NaN | PosInfinity | NegInfinity | Finite rat

text \<open>A value of a JSON body, as \<^verbatim>\<open>express.json()\<close> parsed it.\<close>

datatype json =
    JNull
  | JBool bool
  | JNumber jsnum
  | JString string
  | JArray "json list"
  | JObject "(string \<times> json) list"

definition Number_isFinite :: "jsnum \<Rightarrow> bool" where
  "Number_isFinite n = (case n of Finite _ \<Rightarrow> True | _ \<Rightarrow> False)"

text \<open>
  \<^verbatim>\<open>Number(v)\<close> on a field: \<^verbatim>\<open>undefined\<close> gives \<open>NaN\<close>; a string made only of
  white space and line terminators (the empty string too) gives \<open>0\<close>; every other string
  is read by the numeric-literal grammar of the language, which is the parameter \<open>lit\<close>.
\<close>

definition isStrWhiteSpaceChar :: "char \<Rightarrow> bool" where
  "isStrWhiteSpaceChar c =
     (c \<in> set [CHR 0x09, CHR 0x0A, CHR 0x0B, CHR 0x0C, CHR 0x0D, CHR 0x20])"

definition Number :: "(string \<Rightarrow> jsnum) \<Rightarrow> string option \<Rightarrow> jsnum" where
  "Number lit v =
     (case v of
        None \<Rightarrow> NaN
      | Some s \<Rightarrow> if list_all isStrWhiteSpaceChar s then Finite 0 else lit s)"

text \<open>
  An instance of the numeric-literal parameter for the closed examples below: it reads a
  string of decimal digits and answers \<open>NaN\<close> on anything else.
\<close>

fun digits_value :: "nat \<Rightarrow> string \<Rightarrow> nat option" where
  "digits_value acc [] = Some acc"
| "digits_value acc (c # cs) =
     (if (48::nat) \<le> of_char c \<and> (of_char c :: nat) \<le> 57
      then digits_value (10 * acc + (of_char c - 48)) cs
      else None)"

definition decimal_lit :: "string \<Rightarrow> jsnum" where
  "decimal_lit s =
     (case digits_value 0 s of None \<Rightarrow> NaN | Some n \<Rightarrow> Finite (of_nat n))"

text \<open>\<^verbatim>\<open>a === n\<close> for a possibly absent number \<open>a\<close> and a number \<open>n\<close>.\<close>

definition strict_eq :: "jsnum option \<Rightarrow> jsnum \<Rightarrow> bool" where
  "strict_eq a n = (case a of None \<Rightarrow> False | Some m \<Rightarrow> m \<noteq> NaN \<and> m = n)"

text \<open>Position of the first element that satisfies a predicate (\<^verbatim>\<open>Array.prototype.find\<close>,
  and the first match of a store query).\<close>

fun findIndex :: "('a \<Rightarrow> bool) \<Rightarrow> 'a list \<Rightarrow> nat option" where
  "findIndex P [] = None"
| "findIndex P (x # xs) = (if P x then Some 0 else map_option Suc (findIndex P xs))"

fun removeFirst :: "('a \<Rightarrow> bool) \<Rightarrow> 'a list \<Rightarrow> 'a list" where
  "removeFirst P [] = []"
| "removeFirst P (x # xs) = (if P x then xs else x # removeFirst P xs)"

section \<open>Schemas\<close>

text \<open>The card sub-document of \<^verbatim>\<open>cardDataSchema\<close>, as the store holds it: the
  identifier the store gives every sub-document, and the fields of the schema, every one
  optional.\<close>

record card =
  card_id :: string
  cardNum :: "jsnum option"
  beforeImg :: "string option"
  afterImg :: "string option"
  details :: "string option"
  name :: "string option"
  beforeWeight :: "string option"
  afterWeight :: "string option"

record cardData_doc =
  cd_branch :: string
  cd_cards :: "card list"

record image_doc =
  img_url :: string
  img_cardNum :: jsnum
  img_slot :: string
  img_createdAt :: nat

record offer_doc =
  of_key :: string
  of_title :: string
  of_details :: string
  of_imageUrl :: string
  of_updatedAt :: nat

record contactInquiry_doc =
  ci_name :: string
  ci_email :: string
  ci_phone :: string
  ci_message :: string
  ci_createdAt :: nat

record videoReview_doc =
  vr_url :: string
  vr_title :: string
  vr_fileName :: string
  vr_mimeType :: string
  vr_publicId :: string
  vr_uploadedAt :: nat

text \<open>The validators the schemas declare: \<^verbatim>\<open>required\<close> (a required string is not
  empty) and the \<^verbatim>\<open>enum\<close> of the image slot.\<close>

definition Image_valid :: "image_doc \<Rightarrow> bool" where
  "Image_valid d =
     (img_url d \<noteq> [] \<and> img_cardNum d \<noteq> NaN \<and> img_slot d \<noteq> [] \<and>
      img_slot d \<in> set [''before'', ''after''])"

definition CardData_valid :: "cardData_doc \<Rightarrow> bool" where
  "CardData_valid d = (cd_branch d \<noteq> [])"

definition ContactInquiry_valid :: "contactInquiry_doc \<Rightarrow> bool" where
  "ContactInquiry_valid d = (ci_name d \<noteq> [] \<and> ci_email d \<noteq> [] \<and> ci_message d \<noteq> [])"

section \<open>The world: the five collections and the effects performed\<close>

datatype event =
    CloudinaryUpload
  | ImageDeleteMany
  | ImageSave
  | ImageFind
  | CardDataFindOne
  | CardDataSave
  | CardDataDeleteMany
  | OfferFindOne
  | OfferFindOneAndUpdate
  | OfferDeleteOne
  | ContactInquiryCreate
  | SendMail string

record world =
  images :: "image_doc list"
  cardDatas :: "cardData_doc list"
  offers :: "offer_doc list"
  contactInquiries :: "contactInquiry_doc list"
  videoReviews :: "videoReview_doc list"
  trace :: "event list"

text \<open>
  What the collaborators do during one request: the clock, the answer of the media host,
  whether the mail relay accepts the message, which of the request's store calls
  (numbered in program order from 0) throw, and the identifier the store library
  generates for a sub-document the handler pushes.
\<close>

datatype cloud_result = Resolved string | Rejected

record env =
  now :: nat
  cloud :: cloud_result
  sendMail_ok :: bool
  store_faults :: "nat list"
  objectId :: string

definition throws :: "env \<Rightarrow> nat \<Rightarrow> bool" where
  "throws e i = (i \<in> set (store_faults e))"

datatype exn = StoreError | ValidationError | CastError | UploadError

type_synonym 'a io = "world \<Rightarrow> (exn + 'a) \<times> world"

definition return_io :: "'a \<Rightarrow> 'a io" where
  "return_io a w = (Inr a, w)"

text \<open>\<^verbatim>\<open>await m\<close>, then the rest of the \<^verbatim>\<open>try\<close> block: a rejection skips the rest.\<close>

definition bind_io :: "'a io \<Rightarrow> ('a \<Rightarrow> 'b io) \<Rightarrow> 'b io" where
  "bind_io m f w = (case m w of (Inl x, w') \<Rightarrow> (Inl x, w') | (Inr a, w') \<Rightarrow> f a w')"

datatype body =
    ErrorBody string
  | FrameworkError
  | SuccessBody
  | NullBody
  | CardsBody "card list"
  | ImagesBody "image_doc list"
  | UploadBody string jsnum string string
  | OfferBody string string string nat
  | InquiryBody contactInquiry_doc bool

type_synonym response = "nat \<times> body"

text \<open>\<^verbatim>\<open>try { ... } catch (err) { res.status(500).json(...) }\<close>.\<close>

definition catch_io :: "response io \<Rightarrow> response \<Rightarrow> world \<Rightarrow> response \<times> world" where
  "catch_io m r500 w = (case m w of (Inl _, w') \<Rightarrow> (r500, w') | (Inr r, w') \<Rightarrow> (r, w'))"

definition emit :: "event \<Rightarrow> world \<Rightarrow> world" where
  "emit ev w = w\<lparr>trace := trace w @ [ev]\<rparr>"

text \<open>
  The document store holds one collection per schema, a list in insertion order. Each
  model operation the handlers call is a function on the world below, after the
  operation's query: \<^verbatim>\<open>deleteMany\<close> removes every match, \<^verbatim>\<open>findOne\<close> answers the first
  match, \<^verbatim>\<open>deleteOne\<close> removes it, \<^verbatim>\<open>save\<close> and \<^verbatim>\<open>create\<close> run the schema's validators
  and then write. One call of the store is recorded in the trace, and either throws or
  runs.
\<close>

definition store_call :: "env \<Rightarrow> nat \<Rightarrow> event \<Rightarrow> (world \<Rightarrow> 'a \<times> world) \<Rightarrow> 'a io" where
  "store_call e i ev f w =
     (if throws e i then (Inl StoreError, emit ev w)
      else (case f (emit ev w) of (a, w') \<Rightarrow> (Inr a, w')))"

section \<open>Store operations on the card data\<close>

definition CardData_deleteMany :: "env \<Rightarrow> nat \<Rightarrow> string \<Rightarrow> unit io" where
  "CardData_deleteMany e i b =
     store_call e i CardDataDeleteMany
       (\<lambda>w. ((), w\<lparr>cardDatas := filter (\<lambda>d. cd_branch d \<noteq> b) (cardDatas w)\<rparr>))"

text \<open>\<^verbatim>\<open>CardData.findOne({ branch })\<close>: the first document of the branch, with its position
  in the collection, which is the identity a later \<^verbatim>\<open>save\<close> writes to.\<close>

definition CardData_findOne :: "env \<Rightarrow> nat \<Rightarrow> string \<Rightarrow> (nat \<times> cardData_doc) option io" where
  "CardData_findOne e i b =
     store_call e i CardDataFindOne
       (\<lambda>w. (map_option (\<lambda>k. (k, cardDatas w ! k))
                (findIndex (\<lambda>d. cd_branch d = b) (cardDatas w)), w))"

text \<open>\<^verbatim>\<open>doc.save()\<close>: validation first; a new document (\<open>None\<close>) is inserted, a loaded one
  is written back at its position.\<close>

definition CardData_save :: "env \<Rightarrow> nat \<Rightarrow> nat option \<Rightarrow> cardData_doc \<Rightarrow> unit io" where
  "CardData_save e i pos d w =
     (if \<not> CardData_valid d then (Inl ValidationError, emit CardDataSave w)
      else store_call e i CardDataSave
             (\<lambda>w. ((), w\<lparr>cardDatas :=
                (case pos of None \<Rightarrow> cardDatas w @ [d] | Some k \<Rightarrow> (cardDatas w)[k := d])\<rparr>)) w)"

section \<open>Requests without a parsed body\<close>

text \<open>
  Under Express 5 \<^verbatim>\<open>req.body\<close> is \<^verbatim>\<open>undefined\<close> when no parser read a body. The handlers of
  the offers, the inquiries and the videos destructure \<^verbatim>\<open>req.body || {}\<close>; the handlers of
  \<^verbatim>\<open>/api/upload\<close> and \<^verbatim>\<open>/api/save-cards\<close> destructure \<^verbatim>\<open>req.body\<close> itself, before their
  \<^verbatim>\<open>try\<close>: without a body that statement throws, and the framework answers 500 with its
  own error page. The body of a request is \<open>None\<close> when it was not parsed.
\<close>

definition unguarded_body ::
  "('a \<Rightarrow> world \<Rightarrow> response \<times> world) \<Rightarrow> 'a option \<Rightarrow> world \<Rightarrow> response \<times> world" where
  "unguarded_body handler body w =
     (case body of None \<Rightarrow> ((500, FrameworkError), w) | Some b \<Rightarrow> handler b w)"

section \<open>POST /api/save-cards and GET /api/load-cards\<close>

text \<open>The \<^verbatim>\<open>cards\<close> member of the body is any JSON value, or absent.\<close>

definition isArray :: "json option \<Rightarrow> bool" where
  "isArray c = (case c of Some (JArray _) \<Rightarrow> True | _ \<Rightarrow> False)"

definition elements :: "json option \<Rightarrow> json list" where
  "elements c = (case c of Some (JArray xs) \<Rightarrow> xs | _ \<Rightarrow> [])"

record save_req =
  sv_branch :: "string option"
  sv_cards :: "json option"

text \<open>
  \<^verbatim>\<open>new CardData({ branch, cards }).save()\<close>. The document is built by casting the array to
  the schema's cards: the store library's cast is the parameter \<open>cast\<close>, which answers the
  cards as they will be stored (the schema's fields of each element, and its identifier)
  or \<open>None\<close> when an element cannot be cast; then \<^verbatim>\<open>save\<close> rejects the document before it
  writes.
\<close>

definition CardData_new_save ::
  "(json list \<Rightarrow> card list option) \<Rightarrow> env \<Rightarrow> nat \<Rightarrow> string \<Rightarrow> json list \<Rightarrow> unit io" where
  "CardData_new_save cast e i b xs w =
     (case cast xs of
        None \<Rightarrow> (Inl ValidationError, emit CardDataSave w)
      | Some cs \<Rightarrow> CardData_save e i None \<lparr>cd_branch = b, cd_cards = cs\<rparr> w)"

text \<open>The handler on a parsed body, and the route.\<close>

definition save_cards ::
  "(json list \<Rightarrow> card list option) \<Rightarrow> env \<Rightarrow> save_req \<Rightarrow> world \<Rightarrow> response \<times> world" where
  "save_cards cast e req w =
     (if \<not> truthy (sv_branch req) \<or> \<not> isArray (sv_cards req)
      then ((400, ErrorBody ''Invalid payload''), w)
      else catch_io
             (bind_io (CardData_deleteMany e 0 (the (sv_branch req))) (\<lambda>_.
              bind_io (CardData_new_save cast e 1 (the (sv_branch req))
                         (elements (sv_cards req))) (\<lambda>_.
              return_io (200, SuccessBody))))
             (500, ErrorBody ''Failed to save cards'') w)"

definition post_save_cards ::
  "(json list \<Rightarrow> card list option) \<Rightarrow> env \<Rightarrow> save_req option \<Rightarrow> world \<Rightarrow> response \<times> world" where
  "post_save_cards cast e = unguarded_body (save_cards cast e)"

definition load_cards :: "env \<Rightarrow> string option \<Rightarrow> world \<Rightarrow> response \<times> world" where
  "load_cards e branch w =
     (if \<not> truthy branch then ((400, ErrorBody ''Missing branch''), w)
      else catch_io
             (bind_io (CardData_findOne e 0 (the branch)) (\<lambda>data.
              return_io (200, CardsBody (case data of Some (_, d) \<Rightarrow> cd_cards d | None \<Rightarrow> []))))
             (500, ErrorBody ''Failed to load cards'') w)"

section \<open>Store operations on the images\<close>

definition Image_deleteMany :: "env \<Rightarrow> nat \<Rightarrow> jsnum \<Rightarrow> string \<Rightarrow> unit io" where
  "Image_deleteMany e i n s =
     store_call e i ImageDeleteMany
       (\<lambda>w. ((), w\<lparr>images := filter (\<lambda>d. \<not> (img_cardNum d = n \<and> img_slot d = s)) (images w)\<rparr>))"

definition Image_save :: "env \<Rightarrow> nat \<Rightarrow> image_doc \<Rightarrow> unit io" where
  "Image_save e i d w =
     (if \<not> Image_valid d then (Inl ValidationError, emit ImageSave w)
      else store_call e i ImageSave (\<lambda>w. ((), w\<lparr>images := images w @ [d]\<rparr>)) w)"

text \<open>
  \<^verbatim>\<open>Image.find(filter).sort({ createdAt: 1 })\<close>. The \<^verbatim>\<open>cardNum\<close> of the filter is the
  query string; the store casts it to the schema's Number and rejects the query when
  the result is not a number.
\<close>

definition Image_find ::
  "(string \<Rightarrow> jsnum) \<Rightarrow> env \<Rightarrow> nat \<Rightarrow> string option \<Rightarrow> string option \<Rightarrow> image_doc list io" where
  "Image_find lit e i fcardNum fslot w =
     (if fcardNum \<noteq> None \<and> Number lit fcardNum = NaN then (Inl CastError, emit ImageFind w)
      else store_call e i ImageFind
             (\<lambda>w. (sort_key img_createdAt
                      (filter (\<lambda>d. (case fcardNum of None \<Rightarrow> True
                                     | Some c \<Rightarrow> img_cardNum d = Number lit (Some c)) \<and>
                                    (case fslot of None \<Rightarrow> True | Some s \<Rightarrow> img_slot d = s))
                         (images w)), w)) w)"

section \<open>POST /api/upload\<close>

record upload_req =
  up_file :: "string option"
  up_branch :: "string option"
  up_cardNum :: "string option"
  up_slot :: "string option"

text \<open>The promise around \<^verbatim>\<open>cloudinary.uploader.upload_stream\<close>: it resolves with the
  \<^verbatim>\<open>secure_url\<close> of the result or rejects.\<close>

definition uploadToCloudinary :: "env \<Rightarrow> string io" where
  "uploadToCloudinary e w =
     (case cloud e of
        Resolved u \<Rightarrow> (Inr u, emit CloudinaryUpload w)
      | Rejected \<Rightarrow> (Inl UploadError, emit CloudinaryUpload w))"

definition new_card :: "string \<Rightarrow> jsnum \<Rightarrow> card" where
  "new_card oid n =
     \<lparr>card_id = oid, cardNum = Some n, beforeImg = None, afterImg = None, details = None, name = None,
      beforeWeight = None, afterWeight = None\<rparr>"

text \<open>The two assignments \<^verbatim>\<open>if (slot === 'before') ...\<close> and
  \<^verbatim>\<open>if (slot === 'after') ...\<close>.\<close>

definition set_slot :: "string \<Rightarrow> string \<Rightarrow> card \<Rightarrow> card" where
  "set_slot slot u c =
     (let c1 = (if slot = ''before'' then c\<lparr>beforeImg := Some u\<rparr> else c)
      in if slot = ''after'' then c1\<lparr>afterImg := Some u\<rparr> else c1)"

text \<open>The cards of the set after the handler found (or appended) the card of the number
  and wrote the URL into it.\<close>

definition put_card ::
  "string \<Rightarrow> jsnum \<Rightarrow> string \<Rightarrow> string \<Rightarrow> card list \<Rightarrow> card list" where
  "put_card oid n slot u cs =
     (case findIndex (\<lambda>c. strict_eq (cardNum c) n) cs of
        Some j \<Rightarrow> cs[j := set_slot slot u (cs ! j)]
      | None \<Rightarrow> cs @ [set_slot slot u (new_card oid n)])"

definition upload_try :: "env \<Rightarrow> string \<Rightarrow> jsnum \<Rightarrow> string \<Rightarrow> response io" where
  "upload_try e branch cardNumNum slot =
     bind_io (uploadToCloudinary e) (\<lambda>secure_url.
     bind_io (Image_deleteMany e 0 cardNumNum slot) (\<lambda>_.
     bind_io (Image_save e 1
                \<lparr>img_url = secure_url, img_cardNum = cardNumNum, img_slot = slot,
                 img_createdAt = now e\<rparr>) (\<lambda>_.
     bind_io (CardData_findOne e 2 branch) (\<lambda>found.
     bind_io (case found of
                None \<Rightarrow>
                  CardData_save e 3 None
                    \<lparr>cd_branch = branch,
                     cd_cards = put_card (objectId e) cardNumNum slot secure_url []\<rparr>
              | Some (k, cardData) \<Rightarrow>
                  CardData_save e 3 (Some k)
                    (cardData\<lparr>cd_cards :=
                       put_card (objectId e) cardNumNum slot secure_url
                         (cd_cards cardData)\<rparr>)) (\<lambda>_.
     return_io (201, UploadBody secure_url cardNumNum slot branch))))))"

text \<open>The handler on a request whose body was parsed (\<^verbatim>\<open>req.file\<close> and the fields of
  \<^verbatim>\<open>req.body\<close>), and the route, whose destructuring of \<^verbatim>\<open>req.body\<close> is unguarded.\<close>

definition upload ::
  "(string \<Rightarrow> jsnum) \<Rightarrow> env \<Rightarrow> upload_req \<Rightarrow> world \<Rightarrow> response \<times> world" where
  "upload lit e req w =
     (if up_file req = None \<or> \<not> truthy (up_branch req) \<or>
         \<not> Number_isFinite (Number lit (up_cardNum req)) \<or> \<not> truthy (up_slot req)
      then ((400, ErrorBody ''Missing image, branch, cardNum or slot''), w)
      else catch_io
             (upload_try e (the (up_branch req)) (Number lit (up_cardNum req))
                (the (up_slot req)))
             (500, ErrorBody ''Image upload failed'') w)"

definition post_upload ::
  "(string \<Rightarrow> jsnum) \<Rightarrow> env \<Rightarrow> upload_req option \<Rightarrow> world \<Rightarrow> response \<times> world" where
  "post_upload lit e = unguarded_body (upload lit e)"

section \<open>GET /api/images\<close>

record images_query =
  q_cardNum :: "string option"
  q_slot :: "string option"

definition get_images ::
  "(string \<Rightarrow> jsnum) \<Rightarrow> env \<Rightarrow> images_query \<Rightarrow> world \<Rightarrow> response \<times> world" where
  "get_images lit e q w =
     catch_io
       (bind_io (Image_find lit e 0
                   (if truthy (q_cardNum q) then q_cardNum q else None)
                   (if truthy (q_slot q) then q_slot q else None)) (\<lambda>imgs.
        return_io (200, ImagesBody imgs)))
       (500, ErrorBody ''Failed to load images'') w"

section \<open>The latest offer\<close>

definition Offer_findOne :: "env \<Rightarrow> nat \<Rightarrow> string \<Rightarrow> offer_doc option io" where
  "Offer_findOne e i k =
     store_call e i OfferFindOne (\<lambda>w. (find (\<lambda>d. of_key d = k) (offers w), w))"

text \<open>\<^verbatim>\<open>findOneAndUpdate\<close> with \<^verbatim>\<open>upsert\<close> and \<^verbatim>\<open>new\<close>: the update sets every field of
  the schema, so the first document of the key becomes the update, or the update is
  inserted; the call answers the document as stored.\<close>

definition Offer_findOneAndUpdate :: "env \<Rightarrow> nat \<Rightarrow> string \<Rightarrow> offer_doc \<Rightarrow> offer_doc io" where
  "Offer_findOneAndUpdate e i k d =
     store_call e i OfferFindOneAndUpdate
       (\<lambda>w. (d, w\<lparr>offers :=
                (case findIndex (\<lambda>x. of_key x = k) (offers w) of
                   Some j \<Rightarrow> (offers w)[j := d]
                 | None \<Rightarrow> offers w @ [d])\<rparr>))"

definition Offer_deleteOne :: "env \<Rightarrow> nat \<Rightarrow> string \<Rightarrow> unit io" where
  "Offer_deleteOne e i k =
     store_call e i OfferDeleteOne
       (\<lambda>w. ((), w\<lparr>offers := removeFirst (\<lambda>d. of_key d = k) (offers w)\<rparr>))"

text \<open>The schema declares \<^verbatim>\<open>key\<close> unique: no two offers of the collection share a key.\<close>

definition offers_unique :: "world \<Rightarrow> bool" where
  "offers_unique w = distinct (map of_key (offers w))"

definition offer_json :: "offer_doc \<Rightarrow> body" where
  "offer_json offer =
     OfferBody (of_title offer) (of_details offer) (of_imageUrl offer) (of_updatedAt offer)"

definition get_offer :: "env \<Rightarrow> world \<Rightarrow> response \<times> world" where
  "get_offer e w =
     catch_io
       (bind_io (Offer_findOne e 0 ''latestOffer'') (\<lambda>offer.
        case offer of
          None \<Rightarrow> return_io (200, NullBody)
        | Some d \<Rightarrow> return_io (200, offer_json d)))
       (500, ErrorBody ''Failed to load offer'') w"

record offer_req =
  or_title :: "string option"
  or_details :: "string option"
  or_imageUrl :: "string option"

text \<open>A destructuring default: \<^verbatim>\<open>const { title = '' } = req.body || {}\<close>. A request
  without a body is the request with every member absent.\<close>

definition default_empty :: "string option \<Rightarrow> string" where
  "default_empty v = (case v of None \<Rightarrow> [] | Some s \<Rightarrow> s)"

definition post_offer :: "env \<Rightarrow> offer_req \<Rightarrow> world \<Rightarrow> response \<times> world" where
  "post_offer e req w =
     (let title = default_empty (or_title req);
          details = default_empty (or_details req);
          imageUrl = default_empty (or_imageUrl req)
      in if title = [] \<and> details = [] \<and> imageUrl = []
         then ((400, ErrorBody ''Nothing to save''), w)
         else catch_io
                (bind_io (Offer_findOneAndUpdate e 0 ''latestOffer''
                            \<lparr>of_key = ''latestOffer'', of_title = title, of_details = details,
                             of_imageUrl = imageUrl, of_updatedAt = now e\<rparr>) (\<lambda>offer.
                 return_io (200, offer_json offer)))
                (500, ErrorBody ''Failed to save offer'') w)"

definition delete_offer :: "env \<Rightarrow> world \<Rightarrow> response \<times> world" where
  "delete_offer e w =
     catch_io
       (bind_io (Offer_deleteOne e 0 ''latestOffer'') (\<lambda>_. return_io (200, SuccessBody)))
       (500, ErrorBody ''Failed to delete offer'') w"

section \<open>POST /api/contact/inquiries\<close>

text \<open>The mail settings read from the environment at start, and whether
  \<^verbatim>\<open>nodemailer.createTransport\<close> returned a transporter.\<close>

record config =
  SMTP_HOST :: string
  CONTACT_TO_EMAIL :: string
  CONTACT_FROM_EMAIL :: string
  createTransport_ok :: bool

definition mailTransporter :: "config \<Rightarrow> bool" where
  "mailTransporter cfg =
     (SMTP_HOST cfg \<noteq> [] \<and> CONTACT_TO_EMAIL cfg \<noteq> [] \<and> createTransport_ok cfg)"

definition ContactInquiry_create :: "env \<Rightarrow> nat \<Rightarrow> contactInquiry_doc \<Rightarrow> contactInquiry_doc io" where
  "ContactInquiry_create e i d w =
     (if \<not> ContactInquiry_valid d then (Inl ValidationError, emit ContactInquiryCreate w)
      else store_call e i ContactInquiryCreate
             (\<lambda>w. (d, w\<lparr>contactInquiries := contactInquiries w @ [d]\<rparr>)) w)"

text \<open>The notification: skipped without a transporter, a recipient and a sender; a
  failed send is caught inside and leaves \<^verbatim>\<open>emailSent\<close> false.\<close>

definition notify :: "config \<Rightarrow> env \<Rightarrow> string \<Rightarrow> bool io" where
  "notify cfg e email w =
     (if mailTransporter cfg \<and> CONTACT_TO_EMAIL cfg \<noteq> [] \<and> CONTACT_FROM_EMAIL cfg \<noteq> []
      then (Inr (sendMail_ok e), emit (SendMail email) w)
      else (Inr False, w))"

record inquiry_req =
  ir_name :: "string option"
  ir_email :: "string option"
  ir_phone :: "string option"
  ir_message :: "string option"

definition post_inquiry :: "config \<Rightarrow> env \<Rightarrow> inquiry_req \<Rightarrow> world \<Rightarrow> response \<times> world" where
  "post_inquiry cfg e req w =
     (if \<not> truthy (ir_name req) \<or> \<not> truthy (ir_email req) \<or> \<not> truthy (ir_message req)
      then ((400, ErrorBody ''Missing required fields''), w)
      else catch_io
             (bind_io (ContactInquiry_create e 0
                         \<lparr>ci_name = the (ir_name req), ci_email = the (ir_email req),
                          ci_phone = default_empty (ir_phone req),
                          ci_message = the (ir_message req), ci_createdAt = now e\<rparr>) (\<lambda>inquiry.
              bind_io (notify cfg e (the (ir_email req))) (\<lambda>emailSent.
              return_io (201, InquiryBody inquiry emailSent))))
             (500, ErrorBody ''Failed to save inquiry'') w)"

text \<open>The effects of one run of the upload handler, in program order, and the image
  document it builds.\<close>

definition upload_effects :: "event list" where
  "upload_effects =
     [CloudinaryUpload, ImageDeleteMany, ImageSave, CardDataFindOne, CardDataSave]"

definition new_image :: "env \<Rightarrow> string \<Rightarrow> jsnum \<Rightarrow> string \<Rightarrow> image_doc" where
  "new_image e u n s = \<lparr>img_url = u, img_cardNum = n, img_slot = s, img_createdAt = now e\<rparr>"

text \<open>The condition of the first \<^verbatim>\<open>if\<close> of the upload handler.\<close>

definition upload_invalid :: "(string \<Rightarrow> jsnum) \<Rightarrow> upload_req \<Rightarrow> bool" where
  "upload_invalid lit req =
     (up_file req = None \<or> \<not> truthy (up_branch req) \<or>
      \<not> Number_isFinite (Number lit (up_cardNum req)) \<or> \<not> truthy (up_slot req))"

section \<open>Concrete worlds, environments and requests for the closed examples\<close>

definition world0 :: world where
  "world0 =
     \<lparr>images = [], cardDatas = [], offers = [], contactInquiries = [], videoReviews = [],
      trace = []\<rparr>"

definition world1 :: world where
  "world1 =
     \<lparr>images =
        [\<lparr>img_url = ''old7'', img_cardNum = Finite 7, img_slot = ''before'', img_createdAt = 1\<rparr>,
         \<lparr>img_url = ''old8'', img_cardNum = Finite 8, img_slot = ''before'', img_createdAt = 2\<rparr>],
      cardDatas =
        [\<lparr>cd_branch = ''north'',
          cd_cards = [(new_card ''id7'' (Finite 7))\<lparr>beforeImg := Some ''old7''\<rparr>]\<rparr>,
         \<lparr>cd_branch = ''south'', cd_cards = []\<rparr>],
      offers =
        [\<lparr>of_key = ''latestOffer'', of_title = ''Summer'', of_details = [], of_imageUrl = [],
          of_updatedAt = 3\<rparr>],
      contactInquiries = [], videoReviews = [], trace = []\<rparr>"

definition env_ok :: "nat \<Rightarrow> string \<Rightarrow> env" where
  "env_ok t u =
     \<lparr>now = t, cloud = Resolved u, sendMail_ok = True, store_faults = [],
      objectId = ''oid''\<rparr>"

definition env_rejected :: env where
  "env_rejected =
     \<lparr>now = 5, cloud = Rejected, sendMail_ok = True, store_faults = [], objectId = ''oid''\<rparr>"

definition req1 :: upload_req where
  "req1 =
     \<lparr>up_file = Some ''bytes'', up_branch = Some ''north'', up_cardNum = Some ''7'',
      up_slot = Some ''before''\<rparr>"

text \<open>
  An instance of the cast parameter for the closed examples: an element must be an
  object; its \<open>cardNum\<close> may be absent, a number, or a string of decimal digits; its
  \<open>name\<close> may be absent or a string; everything else is refused.
\<close>

definition sample_castCard :: "json \<Rightarrow> card option" where
  "sample_castCard v =
     (case v of
        JObject kv \<Rightarrow>
          (case (case map_of kv ''cardNum'' of
                   None \<Rightarrow> Some None
                 | Some (JNumber n) \<Rightarrow> (if n = NaN then None else Some (Some n))
                 | Some (JString s) \<Rightarrow>
                     (if s = [] \<or> decimal_lit s = NaN then None else Some (Some (decimal_lit s)))
                 | Some _ \<Rightarrow> None) of
             None \<Rightarrow> None
           | Some num \<Rightarrow>
               (case (case map_of kv ''name'' of
                        None \<Rightarrow> Some None
                      | Some (JString s) \<Rightarrow> Some (Some s)
                      | Some _ \<Rightarrow> None) of
                  None \<Rightarrow> None
                | Some nm \<Rightarrow>
                    Some \<lparr>card_id = ''cid'', cardNum = num, beforeImg = None, afterImg = None,
                          details = None, name = nm, beforeWeight = None,
                          afterWeight = None\<rparr>))
      | _ \<Rightarrow> None)"

definition sample_cast :: "json list \<Rightarrow> card list option" where
  "sample_cast xs = those (map sample_castCard xs)"

definition no_mail :: config where
  "no_mail =
     \<lparr>SMTP_HOST = [], CONTACT_TO_EMAIL = [], CONTACT_FROM_EMAIL = [],
      createTransport_ok = False\<rparr>"

section \<open>Lemmas on lists and on the plumbing of the handlers\<close>

lemmas io_defs = bind_io_def return_io_def catch_io_def store_call_def emit_def

lemmas upload_defs = upload_try_def uploadToCloudinary_def Image_deleteMany_def Image_save_def
  CardData_findOne_def CardData_save_def io_defs

lemmas run_defs = upload_def upload_defs throws_def truthy_def Number_def Number_isFinite_def
  decimal_lit_def Image_valid_def CardData_valid_def put_card_def set_slot_def new_card_def
  strict_eq_def env_ok_def world1_def req1_def isStrWhiteSpaceChar_def

lemma findIndex_None_iff: "findIndex P xs = None \<longleftrightarrow> (\<forall>x\<in>set xs. \<not> P x)"
  by (induction xs) auto

lemma findIndex_Some_nth: "findIndex P xs = Some i \<Longrightarrow> i < length xs \<and> P (xs ! i)"
  by (induction xs arbitrary: i) (auto split: if_splits)

lemma findIndex_append_last:
  "\<forall>x\<in>set xs. \<not> P x \<Longrightarrow> P y \<Longrightarrow> findIndex P (xs @ [y]) = Some (length xs)"
  by (induction xs) auto

lemma find_update_first:
  "findIndex P xs = Some j \<Longrightarrow> P d \<Longrightarrow> find P (xs[j := d]) = Some d"
  by (induction xs arbitrary: j) (auto split: if_splits)

lemma find_append_new:
  "findIndex P xs = None \<Longrightarrow> P d \<Longrightarrow> find P (xs @ [d]) = Some d"
  by (induction xs) (auto split: if_splits)

lemma find_removeFirst_unique:
  "distinct (map f xs) \<Longrightarrow> find (\<lambda>d. f d = k) (removeFirst (\<lambda>d. f d = k) xs) = None"
  by (induction xs) (auto simp: find_None_iff image_iff)

lemma removeFirst_absent: "\<forall>x\<in>set xs. \<not> P x \<Longrightarrow> removeFirst P xs = xs"
  by (induction xs) auto

lemma set_removeFirst: "set (removeFirst P xs) \<subseteq> set xs"
  by (induction xs) auto

lemma distinct_map_removeFirst:
  "distinct (map f xs) \<Longrightarrow> distinct (map f (removeFirst P xs))"
  using set_removeFirst[of P] by (induction xs) (auto simp: image_iff)

lemma distinct_map_update:
  assumes "distinct (map f xs)" and "j < length xs" and "f d = f (xs ! j)"
  shows "distinct (map f (xs[j := d]))"
proof -
  have "map f (xs[j := d]) = (map f xs)[j := map f xs ! j]"
    using assms(2,3) by (simp add: map_update)
  also have "\<dots> = map f xs" by (rule list_update_id)
  finally show ?thesis using assms(1) by simp
qed

lemma upsert_find:
  "P d \<Longrightarrow> find P (case findIndex P xs of Some j \<Rightarrow> xs[j := d] | None \<Rightarrow> xs @ [d]) = Some d"
  by (auto split: option.splits simp: find_update_first find_append_new)

lemma upsert_distinct:
  assumes "distinct (map f xs)" and "f d = k"
  shows "distinct (map f (case findIndex (\<lambda>x. f x = k) xs of
                            Some j \<Rightarrow> xs[j := d] | None \<Rightarrow> xs @ [d]))"
proof (cases "findIndex (\<lambda>x. f x = k) xs")
  case None
  then have "\<forall>x\<in>set xs. f x \<noteq> k" by (simp add: findIndex_None_iff)
  with assms None show ?thesis by auto
next
  case (Some j)
  from findIndex_Some_nth[OF Some] have "j < length xs" "f (xs ! j) = k" by auto
  with assms Some show ?thesis by (simp add: distinct_map_update)
qed

lemma catch_io_Inr: "fst (m w) = Inr r \<Longrightarrow> fst (catch_io m x w) = r"
  by (cases "m w") (simp add: catch_io_def)

lemma catch_io_Inl: "fst (m w) = Inl a \<Longrightarrow> fst (catch_io m x w) = x"
  by (cases "m w") (simp add: catch_io_def)

lemma catch_io_snd: "snd (catch_io m r w) = snd (m w)"
  by (auto simp: catch_io_def split: prod.splits sum.splits)

section \<open>Runs of the upload handler\<close>

lemma upload_400:
  "upload_invalid lit req \<Longrightarrow>
   upload lit e req w = ((400, ErrorBody ''Missing image, branch, cardNum or slot''), w)"
  by (auto simp: upload_def upload_invalid_def)

lemma upload_run:
  "\<not> upload_invalid lit req \<Longrightarrow>
   upload lit e req w =
     catch_io (upload_try e (the (up_branch req)) (Number lit (up_cardNum req))
                 (the (up_slot req)))
       (500, ErrorBody ''Image upload failed'') w"
  by (auto simp: upload_def upload_invalid_def)

lemma upload_try_images:
  "upload_try e b n s w = (Inr r, w') \<Longrightarrow>
     \<exists>u. cloud e = Resolved u \<and> r = (201, UploadBody u n s b) \<and>
         Image_valid (new_image e u n s) \<and>
         images w' =
           filter (\<lambda>d. \<not> (img_cardNum d = n \<and> img_slot d = s)) (images w) @ [new_image e u n s]"
  by (auto simp: upload_defs new_image_def
      split: cloud_result.splits if_splits option.splits prod.splits)

lemma upload_try_trace:
  "\<exists>k. trace (snd (upload_try e b n s w)) = trace w @ take k upload_effects"
proof -
  have "trace (snd (upload_try e b n s w)) \<in>
          (\<lambda>k. trace w @ take k upload_effects) ` {1, 2, 3, 4, 5}"
    by (auto simp: upload_defs upload_effects_def
        split: cloud_result.splits if_splits option.splits prod.splits)
  then show ?thesis by blast
qed

lemma upload_try_first:
  "\<exists>t. trace (snd (upload_try e b n s w)) = trace w @ CloudinaryUpload # t"
  by (auto simp: upload_defs split: cloud_result.splits if_splits option.splits prod.splits)

lemma upload_try_rejected:
  "cloud e = Rejected \<Longrightarrow> upload_try e b n s w = (Inl UploadError, emit CloudinaryUpload w)"
  by (simp add: upload_defs)

lemma upload_try_ok:
  assumes "cloud e = Resolved u" and "store_faults e = []"
      and "Image_valid (new_image e u n s)" and "b \<noteq> []"
  shows "fst (upload_try e b n s w) = Inr (201, UploadBody u n s b)"
  using assms
  by (auto simp: upload_defs throws_def new_image_def CardData_valid_def split: option.splits
      dest: findIndex_Some_nth)

lemma upload_try_bad_slot:
  assumes "s \<notin> set [''before'', ''after'']"
  shows "\<exists>x. fst (upload_try e b n s w) = Inl x"
    and "cardDatas (snd (upload_try e b n s w)) = cardDatas w"
  using assms
  by (auto simp: upload_defs Image_valid_def split: cloud_result.splits)

lemma upload_try_bad_slot_trace:
  assumes "s \<notin> set [''before'', ''after'']" and "cloud e = Resolved u" and "\<not> throws e 0"
  shows "upload_try e b n s w =
           (Inl ValidationError,
            w\<lparr>images := filter (\<lambda>d. \<not> (img_cardNum d = n \<and> img_slot d = s)) (images w),
              trace := trace w @ [CloudinaryUpload, ImageDeleteMany, ImageSave]\<rparr>)"
  using assms
  by (auto simp: upload_defs Image_valid_def split: cloud_result.splits)

lemma upload_never_400_after_validation:
  "fst (fst (catch_io (upload_try e b n s) (500, x) w)) \<noteq> 400"
proof (cases "upload_try e b n s w")
  case (Pair r w')
  show ?thesis
  proof (cases r)
    case (Inl a)
    with Pair show ?thesis by (simp add: catch_io_def)
  next
    case (Inr y)
    with Pair upload_try_images[of e b n s w y w'] show ?thesis
      by (auto simp: catch_io_def)
  qed
qed

lemma Number_blank: "list_all isStrWhiteSpaceChar c \<Longrightarrow> Number lit (Some c) = Finite 0"
  by (simp add: Number_def)

section \<open>Runs of the offer handlers\<close>

lemma post_offer_run:
  assumes "\<not> throws e 0"
      and "default_empty (or_title req) \<noteq> [] \<or> default_empty (or_details req) \<noteq> [] \<or>
           default_empty (or_imageUrl req) \<noteq> []"
  shows "fst (post_offer e req w) =
           (200, offer_json
              \<lparr>of_key = ''latestOffer'', of_title = default_empty (or_title req),
               of_details = default_empty (or_details req),
               of_imageUrl = default_empty (or_imageUrl req), of_updatedAt = now e\<rparr>)"
    and "offers (snd (post_offer e req w)) =
           (case findIndex (\<lambda>x. of_key x = ''latestOffer'') (offers w) of
              Some j \<Rightarrow>
                (offers w)[j :=
                  \<lparr>of_key = ''latestOffer'', of_title = default_empty (or_title req),
                   of_details = default_empty (or_details req),
                   of_imageUrl = default_empty (or_imageUrl req), of_updatedAt = now e\<rparr>]
            | None \<Rightarrow>
                offers w @
                [\<lparr>of_key = ''latestOffer'', of_title = default_empty (or_title req),
                  of_details = default_empty (or_details req),
                  of_imageUrl = default_empty (or_imageUrl req), of_updatedAt = now e\<rparr>])"
proof -
  let ?d = "\<lparr>of_key = ''latestOffer'', of_title = default_empty (or_title req),
             of_details = default_empty (or_details req),
             of_imageUrl = default_empty (or_imageUrl req), of_updatedAt = now e\<rparr>"
  have "\<not> (default_empty (or_title req) = [] \<and> default_empty (or_details req) = [] \<and>
           default_empty (or_imageUrl req) = [])"
    using assms(2) by blast
  then have run: "post_offer e req w =
      catch_io
        (bind_io (Offer_findOneAndUpdate e 0 ''latestOffer'' ?d) (\<lambda>offer.
         return_io (200, offer_json offer)))
        (500, ErrorBody ''Failed to save offer'') w"
    unfolding post_offer_def Let_def by (simp only: if_False)
  show "fst (post_offer e req w) = (200, offer_json ?d)"
    using assms(1) by (simp add: run io_defs Offer_findOneAndUpdate_def)
  show "offers (snd (post_offer e req w)) =
          (case findIndex (\<lambda>x. of_key x = ''latestOffer'') (offers w) of
             Some j \<Rightarrow> (offers w)[j := ?d] | None \<Rightarrow> offers w @ [?d])"
    using assms(1) by (simp add: run io_defs Offer_findOneAndUpdate_def split: option.splits)
qed

lemma get_offer_run:
  "\<not> throws e 0 \<Longrightarrow>
   fst (get_offer e w) =
     (case find (\<lambda>d. of_key d = ''latestOffer'') (offers w) of
        None \<Rightarrow> (200, NullBody) | Some d \<Rightarrow> (200, offer_json d))"
  by (auto simp: get_offer_def io_defs Offer_findOne_def split: option.splits)

lemma delete_offer_run:
  "\<not> throws e 0 \<Longrightarrow>
   delete_offer e w =
     ((200, SuccessBody),
      w\<lparr>offers := removeFirst (\<lambda>d. of_key d = ''latestOffer'') (offers w),
        trace := trace w @ [OfferDeleteOne]\<rparr>)"
  by (simp add: delete_offer_def io_defs Offer_deleteOne_def)

text \<open>The unique key holds in the empty store and every offer handler keeps it.\<close>

lemma offers_unique_world0: "offers_unique world0"
  by (simp add: offers_unique_def world0_def)

lemma offers_unique_delete_offer: "offers_unique w \<Longrightarrow> offers_unique (snd (delete_offer e w))"
  by (simp add: delete_offer_def io_defs Offer_deleteOne_def offers_unique_def
      distinct_map_removeFirst)

lemma offers_unique_post_offer: "offers_unique w \<Longrightarrow> offers_unique (snd (post_offer e req w))"
proof -
  assume u: "offers_unique w"
  let ?d = "\<lparr>of_key = ''latestOffer'', of_title = default_empty (or_title req),
             of_details = default_empty (or_details req),
             of_imageUrl = default_empty (or_imageUrl req), of_updatedAt = now e\<rparr>"
  from u have "distinct (map of_key
      (case findIndex (\<lambda>x. of_key x = ''latestOffer'') (offers w) of
         Some j \<Rightarrow> (offers w)[j := ?d] | None \<Rightarrow> offers w @ [?d]))"
    by (intro upsert_distinct) (simp_all add: offers_unique_def)
  with u show ?thesis
    by (simp add: post_offer_def Let_def io_defs Offer_findOneAndUpdate_def offers_unique_def
        split: option.splits)
qed

lemma offers_unique_get_offer: "offers_unique w \<Longrightarrow> offers_unique (snd (get_offer e w))"
  by (simp add: get_offer_def io_defs Offer_findOne_def offers_unique_def split: option.splits)

section \<open>C1: saving a branch's cards and loading them back\<close>

text \<open>
  Claim C1, as stated, ranges over every branch string. At the empty branch string the
  guard \<^verbatim>\<open>!branch\<close> of both routes answers 400: the save stores nothing and the load
  does not answer the saved array (here the empty array).
\<close>

theorem save_cards_empty_branch_counterexample:
  "fst (post_save_cards sample_cast (env_ok 4 [])
          (Some \<lparr>sv_branch = Some [], sv_cards = Some (JArray [])\<rparr>) world0) =
     (400, ErrorBody ''Invalid payload'') \<and>
   fst (load_cards (env_ok 4 []) (Some [])
          (snd (post_save_cards sample_cast (env_ok 4 [])
                  (Some \<lparr>sv_branch = Some [], sv_cards = Some (JArray [])\<rparr>) world0))) =
     (400, ErrorBody ''Missing branch'') \<and>
   fst (load_cards (env_ok 4 []) (Some [])
          (snd (post_save_cards sample_cast (env_ok 4 [])
                  (Some \<lparr>sv_branch = Some [], sv_cards = Some (JArray [])\<rparr>) world0))) \<noteq>
     (200, CardsBody [])"
  by (simp add: post_save_cards_def unguarded_body_def save_cards_def load_cards_def truthy_def)

text \<open>
  Claim C1, amended: for every non-empty branch string \<open>b\<close> and every array that the
  schema casts, with the store answering the calls of both requests,
  \<^verbatim>\<open>POST /api/save-cards\<close> succeeds, a following \<^verbatim>\<open>GET /api/load-cards?branch=b\<close> returns
  the array as the schema cast it, and the collection afterwards holds one record for
  \<open>b\<close>, the new one: every earlier record of \<open>b\<close> is gone (nothing is merged) and the
  records of other branches are as they were. For the empty branch string, whatever the
  cards, both routes answer 400 and leave the store as it is.
\<close>

theorem save_cards_then_load_cards:
  "(b \<noteq> [] \<and> \<not> throws e 0 \<and> \<not> throws e 1 \<and> \<not> throws e' 0 \<and> cast xs = Some cs \<longrightarrow>
      fst (post_save_cards cast e (Some \<lparr>sv_branch = Some b, sv_cards = Some (JArray xs)\<rparr>) w) =
        (200, SuccessBody) \<and>
      cardDatas
        (snd (post_save_cards cast e
                (Some \<lparr>sv_branch = Some b, sv_cards = Some (JArray xs)\<rparr>) w)) =
        filter (\<lambda>d. cd_branch d \<noteq> b) (cardDatas w) @ [\<lparr>cd_branch = b, cd_cards = cs\<rparr>] \<and>
      filter (\<lambda>d. cd_branch d = b)
        (cardDatas
           (snd (post_save_cards cast e
                   (Some \<lparr>sv_branch = Some b, sv_cards = Some (JArray xs)\<rparr>) w))) =
        [\<lparr>cd_branch = b, cd_cards = cs\<rparr>] \<and>
      fst (load_cards e' (Some b)
             (snd (post_save_cards cast e
                     (Some \<lparr>sv_branch = Some b, sv_cards = Some (JArray xs)\<rparr>) w))) =
        (200, CardsBody cs)) \<and>
   post_save_cards cast e (Some \<lparr>sv_branch = Some [], sv_cards = c\<rparr>) w =
     ((400, ErrorBody ''Invalid payload''), w) \<and>
   load_cards e' (Some []) w = ((400, ErrorBody ''Missing branch''), w)"
proof -
  let ?d = "\<lparr>cd_branch = b, cd_cards = cs\<rparr>"
  let ?old = "filter (\<lambda>d. cd_branch d \<noteq> b) (cardDatas w)"
  let ?req = "\<lparr>sv_branch = Some b, sv_cards = Some (JArray xs)\<rparr>"
  let ?w1 = "snd (post_save_cards cast e (Some ?req) w)"
  have empty: "post_save_cards cast e (Some \<lparr>sv_branch = Some [], sv_cards = c\<rparr>) w =
      ((400, ErrorBody ''Invalid payload''), w)"
    "load_cards e' (Some []) w = ((400, ErrorBody ''Missing branch''), w)"
    by (simp_all add: post_save_cards_def unguarded_body_def save_cards_def load_cards_def
        truthy_def)
  have round: "fst (post_save_cards cast e (Some ?req) w) = (200, SuccessBody) \<and>
      cardDatas ?w1 = ?old @ [?d] \<and>
      filter (\<lambda>d. cd_branch d = b) (cardDatas ?w1) = [?d] \<and>
      fst (load_cards e' (Some b) ?w1) = (200, CardsBody cs)"
    if h: "b \<noteq> []" "\<not> throws e 0" "\<not> throws e 1" "\<not> throws e' 0" "cast xs = Some cs"
  proof -
    have r: "fst (post_save_cards cast e (Some ?req) w) = (200, SuccessBody)"
      using h
      by (simp add: post_save_cards_def unguarded_body_def save_cards_def truthy_def
          isArray_def elements_def io_defs CardData_deleteMany_def CardData_new_save_def
          CardData_save_def CardData_valid_def)
    have c: "cardDatas ?w1 = ?old @ [?d]"
      using h
      by (simp add: post_save_cards_def unguarded_body_def save_cards_def truthy_def
          isArray_def elements_def io_defs CardData_deleteMany_def CardData_new_save_def
          CardData_save_def CardData_valid_def)
    have f: "filter (\<lambda>d. cd_branch d = b) (cardDatas ?w1) = [?d]"
      by (simp add: c filter_empty_conv)
    have i: "findIndex (\<lambda>d. cd_branch d = b) (?old @ [?d]) = Some (length ?old)"
      by (rule findIndex_append_last) auto
    have l: "fst (load_cards e' (Some b) ?w1) = (200, CardsBody cs)"
      using h by (simp add: load_cards_def truthy_def io_defs CardData_findOne_def c i)
    from r c f l show ?thesis by simp
  qed
  from empty round show ?thesis by blast
qed

text \<open>The round trip in a store that already holds cards for the branch: the saved
  array gives the card number as a string, and the load answers the card as cast.\<close>

theorem save_cards_then_load_cards_witness:
  "''north'' \<noteq> [] \<and> \<not> throws (env_ok 4 []) 0 \<and> \<not> throws (env_ok 4 []) 1 \<and>
   sample_cast [JObject [(''cardNum'', JString ''1''), (''name'', JString ''Asha'')]] =
     Some [(new_card ''cid'' (Finite 1))\<lparr>name := Some ''Asha''\<rparr>] \<and>
   fst (post_save_cards sample_cast (env_ok 4 [])
          (Some \<lparr>sv_branch = Some ''north'',
                 sv_cards = Some (JArray [JObject [(''cardNum'', JString ''1''),
                                                   (''name'', JString ''Asha'')]])\<rparr>) world1) =
     (200, SuccessBody) \<and>
   cardDatas
     (snd (post_save_cards sample_cast (env_ok 4 [])
             (Some \<lparr>sv_branch = Some ''north'',
                    sv_cards = Some (JArray [JObject [(''cardNum'', JString ''1''),
                                                      (''name'', JString ''Asha'')]])\<rparr>)
             world1)) =
     [\<lparr>cd_branch = ''south'', cd_cards = []\<rparr>,
      \<lparr>cd_branch = ''north'', cd_cards = [(new_card ''cid'' (Finite 1))\<lparr>name := Some ''Asha''\<rparr>]\<rparr>] \<and>
   fst (load_cards (env_ok 4 []) (Some ''north'')
          (snd (post_save_cards sample_cast (env_ok 4 [])
                  (Some \<lparr>sv_branch = Some ''north'',
                         sv_cards = Some (JArray [JObject [(''cardNum'', JString ''1''),
                                                           (''name'', JString ''Asha'')]])\<rparr>)
                  world1))) =
     (200, CardsBody [(new_card ''cid'' (Finite 1))\<lparr>name := Some ''Asha''\<rparr>])"
proof -
  let ?xs = "[JObject [(''cardNum'', JString ''1''), (''name'', JString ''Asha'')]]"
  let ?cs = "[(new_card ''cid'' (Finite 1))\<lparr>name := Some ''Asha''\<rparr>]"
  have h1: "''north'' \<noteq> []" by simp
  have h2: "\<not> throws (env_ok 4 []) 0" "\<not> throws (env_ok 4 []) 1"
    by (simp_all add: throws_def env_ok_def)
  have h3: "sample_cast ?xs = Some ?cs"
    by (simp add: sample_cast_def sample_castCard_def decimal_lit_def new_card_def)
  have "filter (\<lambda>d. cd_branch d \<noteq> ''north'') (cardDatas world1) =
          [\<lparr>cd_branch = ''south'', cd_cards = []\<rparr>]"
    by (simp add: world1_def)
  with save_cards_then_load_cards[of "''north''" "env_ok 4 []" "env_ok 4 []" sample_cast
      ?xs ?cs world1] h1 h2 h3
  show ?thesis by simp
qed

text \<open>
  When the schema cannot cast an element, the old records of the branch are already
  deleted when \<^verbatim>\<open>save\<close> rejects the document: the answer is 500, the branch is left without
  cards, and a following load answers the empty array.
\<close>

lemma save_cards_cast_failure:
  assumes "b \<noteq> []" and "\<not> throws e 0" and "\<not> throws e' 0" and "cast xs = None"
  shows "fst (post_save_cards cast e (Some \<lparr>sv_branch = Some b, sv_cards = Some (JArray xs)\<rparr>) w) =
           (500, ErrorBody ''Failed to save cards'') \<and>
         cardDatas
           (snd (post_save_cards cast e
                   (Some \<lparr>sv_branch = Some b, sv_cards = Some (JArray xs)\<rparr>) w)) =
           filter (\<lambda>d. cd_branch d \<noteq> b) (cardDatas w) \<and>
         fst (load_cards e' (Some b)
                (snd (post_save_cards cast e
                        (Some \<lparr>sv_branch = Some b, sv_cards = Some (JArray xs)\<rparr>) w))) =
           (200, CardsBody [])"
proof -
  let ?w1 = "snd (post_save_cards cast e
                    (Some \<lparr>sv_branch = Some b, sv_cards = Some (JArray xs)\<rparr>) w)"
  have r: "fst (post_save_cards cast e
                  (Some \<lparr>sv_branch = Some b, sv_cards = Some (JArray xs)\<rparr>) w) =
             (500, ErrorBody ''Failed to save cards'')"
    using assms
    by (simp add: post_save_cards_def unguarded_body_def save_cards_def truthy_def isArray_def
        elements_def io_defs CardData_deleteMany_def CardData_new_save_def)
  have c: "cardDatas ?w1 = filter (\<lambda>d. cd_branch d \<noteq> b) (cardDatas w)"
    using assms
    by (simp add: post_save_cards_def unguarded_body_def save_cards_def truthy_def isArray_def
        elements_def io_defs CardData_deleteMany_def CardData_new_save_def)
  have i: "findIndex (\<lambda>d. cd_branch d = b) (filter (\<lambda>d. cd_branch d \<noteq> b) (cardDatas w)) = None"
    by (simp add: findIndex_None_iff)
  have l: "fst (load_cards e' (Some b) ?w1) = (200, CardsBody [])"
    using assms by (simp add: load_cards_def truthy_def io_defs CardData_findOne_def c i)
  from r c l show ?thesis by simp
qed

lemma save_cards_cast_failure_example:
  "sample_cast [JObject [(''cardNum'', JString ''abc'')]] = None \<and>
   fst (post_save_cards sample_cast (env_ok 4 [])
          (Some \<lparr>sv_branch = Some ''north'',
                 sv_cards = Some (JArray [JObject [(''cardNum'', JString ''abc'')]])\<rparr>) world1) =
     (500, ErrorBody ''Failed to save cards'') \<and>
   cardDatas
     (snd (post_save_cards sample_cast (env_ok 4 [])
             (Some \<lparr>sv_branch = Some ''north'',
                    sv_cards = Some (JArray [JObject [(''cardNum'', JString ''abc'')]])\<rparr>)
             world1)) =
     [\<lparr>cd_branch = ''south'', cd_cards = []\<rparr>]"
proof -
  have h: "''north'' \<noteq> []" "\<not> throws (env_ok 4 []) 0"
    "sample_cast [JObject [(''cardNum'', JString ''abc'')]] = None"
    by (simp_all add: throws_def env_ok_def sample_cast_def sample_castCard_def decimal_lit_def)
  have "filter (\<lambda>d. cd_branch d \<noteq> ''north'') (cardDatas world1) =
          [\<lparr>cd_branch = ''south'', cd_cards = []\<rparr>]"
    by (simp add: world1_def)
  with save_cards_cast_failure[of "''north''" "env_ok 4 []" "env_ok 4 []" sample_cast
      "[JObject [(''cardNum'', JString ''abc'')]]" world1] h
  show ?thesis by simp
qed

text \<open>Without a parsed body the route does not reach its own validation.\<close>

lemma post_save_cards_without_body:
  "post_save_cards cast e None w = ((500, FrameworkError), w)"
  by (simp add: post_save_cards_def unguarded_body_def)

section \<open>C2: a new upload supersedes the image of its card and slot\<close>

text \<open>
  Claim C2: after every successful \<^verbatim>\<open>POST /api/upload\<close> (status 201) for a card number
  and a slot, the images collection holds exactly one record for that pair, the one just
  inserted with the URL the upload returned; every earlier record of the pair is deleted
  and the other records are kept. A following \<^verbatim>\<open>GET /api/images?cardNum=X&slot=Y\<close>,
  where \<open>X\<close> is a non-empty string that denotes the card number and \<open>Y\<close> is the slot,
  returns exactly that one record (the store answering the query). An empty \<open>X\<close> is no
  filter at all for this route, so it does not select the pair.
\<close>

theorem upload_supersedes:
  assumes "upload lit e req w = ((201, bd), w')"
      and "X \<noteq> []" and "Number lit (Some X) = Number lit (up_cardNum req)"
      and "\<not> throws e' 0"
  shows "\<exists>u s b d.
           cloud e = Resolved u \<and> up_slot req = Some s \<and> up_branch req = Some b \<and>
           bd = UploadBody u (Number lit (up_cardNum req)) s b \<and> img_url d = u \<and>
           filter (\<lambda>x. img_cardNum x = Number lit (up_cardNum req) \<and> img_slot x = s)
             (images w') = [d] \<and>
           images w' =
             filter (\<lambda>x. \<not> (img_cardNum x = Number lit (up_cardNum req) \<and> img_slot x = s))
               (images w) @ [d] \<and>
           fst (get_images lit e' \<lparr>q_cardNum = Some X, q_slot = Some s\<rparr> w') =
             (200, ImagesBody [d])"
proof -
  let ?n = "Number lit (up_cardNum req)"
  from assms(1) obtain s b
    where s: "up_slot req = Some s" "s \<noteq> []" and b: "up_branch req = Some b"
      and fin: "Number_isFinite ?n"
      and run: "catch_io (upload_try e b ?n s) (500, ErrorBody ''Image upload failed'') w =
                  ((201, bd), w')"
    by (auto simp: upload_def truthy_def split: if_splits option.splits)
  from run obtain r where t: "upload_try e b ?n s w = (Inr r, w')" and r: "r = (201, bd)"
    by (auto simp: catch_io_def split: prod.splits sum.splits)
  from upload_try_images[OF t] r obtain u
    where u: "cloud e = Resolved u" "bd = UploadBody u ?n s b"
      and im: "images w' =
                 filter (\<lambda>d. \<not> (img_cardNum d = ?n \<and> img_slot d = s)) (images w) @
                 [new_image e u ?n s]"
    by auto
  let ?d = "new_image e u ?n s"
  have f: "filter (\<lambda>x. img_cardNum x = ?n \<and> img_slot x = s) (images w') = [?d]"
    by (simp add: im new_image_def filter_empty_conv)
  have nn: "?n \<noteq> NaN" using fin by (auto simp: Number_isFinite_def)
  have g: "fst (get_images lit e' \<lparr>q_cardNum = Some X, q_slot = Some s\<rparr> w') =
             (200, ImagesBody [?d])"
    using assms(2,3,4) s nn f
    by (simp add: get_images_def Image_find_def truthy_def io_defs)
  have "img_url ?d = u" by (simp add: new_image_def)
  with u s b f im g show ?thesis by blast
qed

text \<open>Card 7 of the store already has a \<open>before\<close> image; the upload replaces it and the
  query for \<^verbatim>\<open>cardNum=7&slot=before\<close> answers the new record alone.\<close>

theorem upload_supersedes_witness:
  "upload decimal_lit (env_ok 5 ''new7'') req1 world1 =
     ((201, UploadBody ''new7'' (Finite 7) ''before'' ''north''),
      snd (upload decimal_lit (env_ok 5 ''new7'') req1 world1)) \<and>
   ''7'' \<noteq> [] \<and>
   Number decimal_lit (Some ''7'') = Number decimal_lit (up_cardNum req1) \<and>
   \<not> throws (env_ok 6 []) 0 \<and>
   images (snd (upload decimal_lit (env_ok 5 ''new7'') req1 world1)) =
     [\<lparr>img_url = ''old8'', img_cardNum = Finite 8, img_slot = ''before'', img_createdAt = 2\<rparr>,
      \<lparr>img_url = ''new7'', img_cardNum = Finite 7, img_slot = ''before'', img_createdAt = 5\<rparr>] \<and>
   fst (get_images decimal_lit (env_ok 6 []) \<lparr>q_cardNum = Some ''7'', q_slot = Some ''before''\<rparr>
          (snd (upload decimal_lit (env_ok 5 ''new7'') req1 world1))) =
     (200, ImagesBody
        [\<lparr>img_url = ''new7'', img_cardNum = Finite 7, img_slot = ''before'',
          img_createdAt = 5\<rparr>])"
proof -
  let ?w' = "snd (upload decimal_lit (env_ok 5 ''new7'') req1 world1)"
  have "fst (upload decimal_lit (env_ok 5 ''new7'') req1 world1) =
          (201, UploadBody ''new7'' (Finite 7) ''before'' ''north'')"
    by (simp add: run_defs)
  then have h1: "upload decimal_lit (env_ok 5 ''new7'') req1 world1 =
      ((201, UploadBody ''new7'' (Finite 7) ''before'' ''north''), ?w')"
    by (cases "upload decimal_lit (env_ok 5 ''new7'') req1 world1") simp
  have h2: "''7'' \<noteq> []" by simp
  have h3: "Number decimal_lit (Some ''7'') = Number decimal_lit (up_cardNum req1)"
    by (simp add: req1_def)
  have h4: "\<not> throws (env_ok 6 []) 0" by (simp add: throws_def env_ok_def)
  have imgs: "images ?w' =
     [\<lparr>img_url = ''old8'', img_cardNum = Finite 8, img_slot = ''before'', img_createdAt = 2\<rparr>,
      \<lparr>img_url = ''new7'', img_cardNum = Finite 7, img_slot = ''before'', img_createdAt = 5\<rparr>]"
    by (simp add: run_defs)
  from upload_supersedes[OF h1 h2 h3 h4] obtain s d
    where s: "up_slot req1 = Some s"
      and i: "images ?w' =
                filter (\<lambda>x. \<not> (img_cardNum x = Number decimal_lit (up_cardNum req1) \<and>
                              img_slot x = s)) (images world1) @ [d]"
      and g: "fst (get_images decimal_lit (env_ok 6 []) \<lparr>q_cardNum = Some ''7'', q_slot = Some s\<rparr>
                     ?w') = (200, ImagesBody [d])"
    by blast
  from s have s': "s = ''before''" by (simp add: req1_def)
  from i have "d = last (images ?w')" by simp
  then have "d = \<lparr>img_url = ''new7'', img_cardNum = Finite 7, img_slot = ''before'',
                  img_createdAt = 5\<rparr>"
    by (simp add: imgs)
  with g s' have g': "fst (get_images decimal_lit (env_ok 6 [])
        \<lparr>q_cardNum = Some ''7'', q_slot = Some ''before''\<rparr> ?w') =
      (200, ImagesBody [\<lparr>img_url = ''new7'', img_cardNum = Finite 7, img_slot = ''before'',
                         img_createdAt = 5\<rparr>])"
    by simp
  from h1 h2 h3 h4 imgs g' show ?thesis by (intro conjI)
qed

section \<open>C3: the remote upload comes first\<close>

text \<open>
  Claim C3: the effects of \<^verbatim>\<open>POST /api/upload\<close> are always an initial part of the
  sequence remote upload, image delete, image insert, card-set read, card-set write: the
  remote upload is performed before any call of the document store. When the remote
  upload fails, no collection changes; and for a request that passed validation the
  response is then 500 and the remote upload is the handler's only effect.
\<close>

theorem upload_remote_first:
  "(\<exists>k. trace (snd (upload lit e req w)) = trace w @ take k upload_effects) \<and>
   (cloud e = Rejected \<longrightarrow>
      images (snd (upload lit e req w)) = images w \<and>
      cardDatas (snd (upload lit e req w)) = cardDatas w \<and>
      offers (snd (upload lit e req w)) = offers w \<and>
      contactInquiries (snd (upload lit e req w)) = contactInquiries w \<and>
      videoReviews (snd (upload lit e req w)) = videoReviews w \<and>
      (up_file req \<noteq> None \<and> truthy (up_branch req) \<and> truthy (up_slot req) \<and>
       Number_isFinite (Number lit (up_cardNum req)) \<longrightarrow>
         fst (upload lit e req w) = (500, ErrorBody ''Image upload failed'') \<and>
         trace (snd (upload lit e req w)) = trace w @ [CloudinaryUpload]))"
proof (cases "upload_invalid lit req")
  case True
  have "trace w = trace w @ take 0 upload_effects" by simp
  then have "\<exists>k. trace w = trace w @ take k upload_effects" by blast
  moreover from True
  have "\<not> (up_file req \<noteq> None \<and> truthy (up_branch req) \<and> truthy (up_slot req) \<and>
           Number_isFinite (Number lit (up_cardNum req)))"
    by (auto simp: upload_invalid_def)
  ultimately show ?thesis using True by (simp add: upload_400)
next
  case False
  have t: "\<exists>k. trace (snd (upload lit e req w)) = trace w @ take k upload_effects"
    using upload_try_trace by (simp add: upload_run[OF False] catch_io_snd)
  have r: "snd (upload lit e req w) = emit CloudinaryUpload w"
    "fst (upload lit e req w) = (500, ErrorBody ''Image upload failed'')"
    if "cloud e = Rejected"
    using that by (simp_all add: upload_run[OF False] catch_io_def upload_try_rejected)
  show ?thesis using t by (simp add: r emit_def)
qed

text \<open>A valid request whose remote upload is rejected.\<close>

theorem upload_remote_first_witness:
  "cloud env_rejected = Rejected \<and>
   up_file req1 \<noteq> None \<and> truthy (up_branch req1) \<and> truthy (up_slot req1) \<and>
   Number_isFinite (Number decimal_lit (up_cardNum req1)) \<and>
   fst (upload decimal_lit env_rejected req1 world1) = (500, ErrorBody ''Image upload failed'') \<and>
   images (snd (upload decimal_lit env_rejected req1 world1)) = images world1 \<and>
   cardDatas (snd (upload decimal_lit env_rejected req1 world1)) = cardDatas world1 \<and>
   trace (snd (upload decimal_lit env_rejected req1 world1)) = trace world1 @ [CloudinaryUpload]"
proof -
  have h: "cloud env_rejected = Rejected" "up_file req1 \<noteq> None" "truthy (up_branch req1)"
    "truthy (up_slot req1)" "Number_isFinite (Number decimal_lit (up_cardNum req1))"
    by (simp_all add: env_rejected_def req1_def truthy_def Number_def Number_isFinite_def
        decimal_lit_def isStrWhiteSpaceChar_def)
  from upload_remote_first[of decimal_lit env_rejected req1 world1] h
  show ?thesis by simp
qed

section \<open>C4: the statuses of the upload\<close>

text \<open>
  Claim C4 says that \<^verbatim>\<open>POST /api/upload\<close> answers 400 whenever the image file, the branch
  or the slot is missing. A request without a body has all of them missing, and the
  route answers 500, not 400: the handler destructures \<^verbatim>\<open>req.body\<close> before its \<^verbatim>\<open>try\<close> and
  without the \<^verbatim>\<open>|| {}\<close> of the offer, inquiry and video handlers, so its own check and its
  400 \<open>Missing image, branch, cardNum or slot\<close> are never reached.
\<close>

theorem post_upload_without_body:
  "post_upload lit e None w = ((500, FrameworkError), w) \<and>
   fst (fst (post_upload lit e None w)) \<noteq> 400"
  by (simp add: post_upload_def unguarded_body_def)

text \<open>
  On a request whose body was parsed the route is the handler, and there the statuses
  are as the claim says: 400 exactly when the image file, the branch or the slot is
  missing (absent or empty) or \<^verbatim>\<open>Number(cardNum)\<close> is not a finite number; otherwise the
  handler goes on to the remote upload, and when that resolves with a URL, the slot is
  one the schema allows and the store answers every call, the response is 201 with the
  URL, the card number, the slot and the branch.
\<close>

lemma post_upload_parsed: "post_upload lit e (Some req) w = upload lit e req w"
  by (simp add: post_upload_def unguarded_body_def)

theorem upload_status:
  "(fst (fst (upload lit e req w)) = 400) =
     (up_file req = None \<or> \<not> truthy (up_branch req) \<or> \<not> truthy (up_slot req) \<or>
      \<not> Number_isFinite (Number lit (up_cardNum req))) \<and>
   (up_file req \<noteq> None \<and> up_branch req = Some b \<and> b \<noteq> [] \<and> up_slot req = Some s \<and>
    s \<noteq> [] \<and> Number_isFinite (Number lit (up_cardNum req)) \<longrightarrow>
      (\<exists>t. trace (snd (upload lit e req w)) = trace w @ CloudinaryUpload # t) \<and>
      (cloud e = Resolved u \<and> u \<noteq> [] \<and> store_faults e = [] \<and>
       s \<in> set [''before'', ''after''] \<longrightarrow>
         fst (upload lit e req w) =
           (201, UploadBody u (Number lit (up_cardNum req)) s b)))"
proof (cases "upload_invalid lit req")
  case True
  then have "up_file req = None \<or> \<not> truthy (up_branch req) \<or> \<not> truthy (up_slot req) \<or>
             \<not> Number_isFinite (Number lit (up_cardNum req))"
    by (auto simp: upload_invalid_def)
  moreover from this
  have "\<not> (up_file req \<noteq> None \<and> up_branch req = Some b \<and> b \<noteq> [] \<and> up_slot req = Some s \<and>
           s \<noteq> [] \<and> Number_isFinite (Number lit (up_cardNum req)))"
    by (auto simp: truthy_def)
  ultimately show ?thesis using True by (simp add: upload_400)
next
  case False
  let ?n = "Number lit (up_cardNum req)"
  have v: "\<not> (up_file req = None \<or> \<not> truthy (up_branch req) \<or> \<not> truthy (up_slot req) \<or>
              \<not> Number_isFinite ?n)"
    using False by (auto simp: upload_invalid_def)
  have a: "fst (fst (upload lit e req w)) \<noteq> 400"
    by (simp add: upload_run[OF False] upload_never_400_after_validation)
  have t: "\<exists>t. trace (snd (upload lit e req w)) = trace w @ CloudinaryUpload # t"
    using upload_try_first by (simp add: upload_run[OF False] catch_io_snd)
  have c: "fst (upload lit e req w) = (201, UploadBody u ?n s b)"
    if h: "up_branch req = Some b" "b \<noteq> []" "up_slot req = Some s" "s \<noteq> []"
      "cloud e = Resolved u" "u \<noteq> []" "store_faults e = []" "s \<in> set [''before'', ''after'']"
  proof -
    have iv: "Image_valid (new_image e u ?n s)"
      using h v by (auto simp: Image_valid_def new_image_def Number_isFinite_def)
    from upload_try_ok[OF h(5) h(7) iv h(2), of w] show ?thesis
      using h(1,3) by (simp add: upload_run[OF False] catch_io_Inr)
  qed
  from a v t c show ?thesis by blast
qed

text \<open>A complete request is answered 201; the same request with an empty branch, 400.\<close>

theorem upload_status_witness:
  "up_file req1 \<noteq> None \<and> up_branch req1 = Some ''north'' \<and> ''north'' \<noteq> [] \<and>
   up_slot req1 = Some ''before'' \<and> ''before'' \<noteq> [] \<and>
   Number_isFinite (Number decimal_lit (up_cardNum req1)) \<and>
   cloud (env_ok 5 ''new7'') = Resolved ''new7'' \<and> ''new7'' \<noteq> [] \<and>
   store_faults (env_ok 5 ''new7'') = [] \<and>
   fst (fst (upload decimal_lit (env_ok 5 ''new7'') req1 world1)) \<noteq> 400 \<and>
   fst (upload decimal_lit (env_ok 5 ''new7'') req1 world1) =
     (201, UploadBody ''new7'' (Finite 7) ''before'' ''north'') \<and>
   fst (fst (upload decimal_lit (env_ok 5 ''new7'') (req1\<lparr>up_branch := Some []\<rparr>) world1)) = 400"
proof -
  have h: "up_file req1 \<noteq> None" "up_branch req1 = Some ''north''" "''north'' \<noteq> []"
    "up_slot req1 = Some ''before''" "''before'' \<noteq> []"
    "Number_isFinite (Number decimal_lit (up_cardNum req1))"
    "cloud (env_ok 5 ''new7'') = Resolved ''new7''" "''new7'' \<noteq> []"
    "store_faults (env_ok 5 ''new7'') = []"
    by (simp_all add: env_ok_def req1_def Number_def Number_isFinite_def decimal_lit_def
        isStrWhiteSpaceChar_def)
  have n: "Number decimal_lit (up_cardNum req1) = Finite 7"
    by (simp add: req1_def Number_def decimal_lit_def isStrWhiteSpaceChar_def)
  have t: "truthy (up_branch req1)" "truthy (up_slot req1)"
    "\<not> truthy (up_branch (req1\<lparr>up_branch := Some []\<rparr>))"
    by (simp_all add: req1_def truthy_def)
  from upload_status[of decimal_lit "env_ok 5 ''new7''" req1 world1 "''north''" "''before''" "''new7''"]
    upload_status[of decimal_lit "env_ok 5 ''new7''" "req1\<lparr>up_branch := Some []\<rparr>" world1]
    h n t
  show ?thesis by simp
qed

section \<open>C5: saving the latest offer\<close>

text \<open>
  Claim C5: \<^verbatim>\<open>POST /api/offers/latest\<close> answers 400 exactly when the title, the details
  and the image URL are all empty or absent. When one of them is not empty and the store
  answers, the offer of the fixed key \<open>latestOffer\<close> is written with the three values and
  with \<open>updatedAt\<close> set to the time of the request, the response carries them, the key
  stays unique, and a following \<^verbatim>\<open>GET /api/offers/latest\<close> returns exactly these values
  and that time.
\<close>

theorem post_offer_then_get:
  "(fst (fst (post_offer e req w)) = 400) =
     (\<not> truthy (or_title req) \<and> \<not> truthy (or_details req) \<and> \<not> truthy (or_imageUrl req)) \<and>
   ((truthy (or_title req) \<or> truthy (or_details req) \<or> truthy (or_imageUrl req)) \<and>
    \<not> throws e 0 \<longrightarrow>
      fst (post_offer e req w) =
        (200, OfferBody (default_empty (or_title req)) (default_empty (or_details req))
                (default_empty (or_imageUrl req)) (now e)) \<and>
      find (\<lambda>d. of_key d = ''latestOffer'') (offers (snd (post_offer e req w))) =
        Some \<lparr>of_key = ''latestOffer'', of_title = default_empty (or_title req),
              of_details = default_empty (or_details req),
              of_imageUrl = default_empty (or_imageUrl req), of_updatedAt = now e\<rparr> \<and>
      (offers_unique w \<longrightarrow> offers_unique (snd (post_offer e req w))) \<and>
      (\<not> throws e' 0 \<longrightarrow>
         fst (get_offer e' (snd (post_offer e req w))) =
           (200, OfferBody (default_empty (or_title req)) (default_empty (or_details req))
                   (default_empty (or_imageUrl req)) (now e))))"
proof -
  let ?d = "\<lparr>of_key = ''latestOffer'', of_title = default_empty (or_title req),
             of_details = default_empty (or_details req),
             of_imageUrl = default_empty (or_imageUrl req), of_updatedAt = now e\<rparr>"
  have tr: "truthy v = (default_empty v \<noteq> [])" for v
    by (simp add: truthy_def default_empty_def split: option.splits)
  have s: "(fst (fst (post_offer e req w)) = 400) =
     (\<not> truthy (or_title req) \<and> \<not> truthy (or_details req) \<and> \<not> truthy (or_imageUrl req))"
    by (simp add: tr post_offer_def Let_def io_defs Offer_findOneAndUpdate_def)
  have r: "fst (post_offer e req w) = (200, offer_json ?d) \<and>
      find (\<lambda>d. of_key d = ''latestOffer'') (offers (snd (post_offer e req w))) = Some ?d \<and>
      (offers_unique w \<longrightarrow> offers_unique (snd (post_offer e req w))) \<and>
      (\<not> throws e' 0 \<longrightarrow> fst (get_offer e' (snd (post_offer e req w))) = (200, offer_json ?d))"
    if h: "truthy (or_title req) \<or> truthy (or_details req) \<or> truthy (or_imageUrl req)"
      "\<not> throws e 0"
  proof -
    have p: "default_empty (or_title req) \<noteq> [] \<or> default_empty (or_details req) \<noteq> [] \<or>
             default_empty (or_imageUrl req) \<noteq> []"
      using h(1) by (simp add: tr)
    note run = post_offer_run[OF h(2) p, of w]
    have f: "find (\<lambda>d. of_key d = ''latestOffer'') (offers (snd (post_offer e req w))) = Some ?d"
      by (simp add: run upsert_find)
    have u: "offers_unique (snd (post_offer e req w))" if "offers_unique w"
      using that upsert_distinct[of of_key "offers w" ?d "''latestOffer''"]
      by (simp add: run offers_unique_def)
    have g: "fst (get_offer e' (snd (post_offer e req w))) = (200, offer_json ?d)"
      if "\<not> throws e' 0"
      by (simp add: get_offer_run[OF that] f)
    from f u g show ?thesis by (simp add: run)
  qed
  from s r show ?thesis by (simp add: offer_json_def)
qed

text \<open>A title alone replaces the stored offer; a body with nothing in it is refused.\<close>

theorem post_offer_then_get_witness:
  "truthy (Some ''Sale'') \<and> \<not> throws (env_ok 9 []) 0 \<and> offers_unique world1 \<and>
   fst (post_offer (env_ok 9 [])
          \<lparr>or_title = Some ''Sale'', or_details = None, or_imageUrl = None\<rparr> world1) =
     (200, OfferBody ''Sale'' [] [] 9) \<and>
   fst (get_offer (env_ok 10 [])
          (snd (post_offer (env_ok 9 [])
                  \<lparr>or_title = Some ''Sale'', or_details = None, or_imageUrl = None\<rparr> world1))) =
     (200, OfferBody ''Sale'' [] [] 9) \<and>
   offers_unique
     (snd (post_offer (env_ok 9 [])
             \<lparr>or_title = Some ''Sale'', or_details = None, or_imageUrl = None\<rparr> world1)) \<and>
   fst (fst (post_offer (env_ok 9 [])
               \<lparr>or_title = Some [], or_details = None, or_imageUrl = None\<rparr> world1)) = 400"
proof -
  have h: "truthy (Some ''Sale'')" "\<not> throws (env_ok 9 []) 0" "\<not> throws (env_ok 10 []) 0"
    "offers_unique world1" "\<not> truthy (Some [])" "\<not> truthy None"
    by (simp_all add: truthy_def throws_def env_ok_def offers_unique_def world1_def)
  from post_offer_then_get[of "env_ok 9 []"
      "\<lparr>or_title = Some ''Sale'', or_details = None, or_imageUrl = None\<rparr>" world1 "env_ok 10 []"]
    post_offer_then_get[of "env_ok 9 []"
      "\<lparr>or_title = Some [], or_details = None, or_imageUrl = None\<rparr>" world1 "env_ok 10 []"]
    h
  show ?thesis by (simp add: default_empty_def env_ok_def)
qed

section \<open>C6: deleting the latest offer\<close>

text \<open>
  Claim C6: with the store answering and the key unique as the schema declares,
  \<^verbatim>\<open>DELETE /api/offers/latest\<close> answers \<open>{success: true}\<close> whether or not an offer is
  stored, a following \<^verbatim>\<open>GET /api/offers/latest\<close> answers JSON null, and a second delete
  succeeds again and changes nothing.
\<close>

theorem delete_offer_then_get:
  assumes "\<not> throws e 0" and "\<not> throws e' 0" and "offers_unique w"
  shows "fst (delete_offer e w) = (200, SuccessBody) \<and>
         fst (get_offer e' (snd (delete_offer e w))) = (200, NullBody) \<and>
         fst (delete_offer e' (snd (delete_offer e w))) = (200, SuccessBody) \<and>
         offers (snd (delete_offer e' (snd (delete_offer e w)))) =
           offers (snd (delete_offer e w))"
proof -
  let ?xs = "removeFirst (\<lambda>d. of_key d = ''latestOffer'') (offers w)"
  have n: "find (\<lambda>d. of_key d = ''latestOffer'') ?xs = None"
    using assms(3) by (simp add: offers_unique_def find_removeFirst_unique)
  then have "\<forall>x\<in>set ?xs. \<not> of_key x = ''latestOffer''"
    by (simp only: find_None_iff) blast
  then have "removeFirst (\<lambda>d. of_key d = ''latestOffer'') ?xs = ?xs"
    by (rule removeFirst_absent)
  with n show ?thesis
    by (simp add: delete_offer_run[OF assms(1)] delete_offer_run[OF assms(2)]
        get_offer_run[OF assms(2)])
qed

text \<open>The delete on a store with an offer and on the empty store.\<close>

theorem delete_offer_then_get_witness:
  "\<not> throws (env_ok 9 []) 0 \<and> offers_unique world1 \<and> offers_unique world0 \<and>
   offers world1 \<noteq> [] \<and> offers world0 = [] \<and>
   fst (delete_offer (env_ok 9 []) world1) = (200, SuccessBody) \<and>
   fst (get_offer (env_ok 9 []) (snd (delete_offer (env_ok 9 []) world1))) = (200, NullBody) \<and>
   fst (delete_offer (env_ok 9 []) world0) = (200, SuccessBody) \<and>
   fst (get_offer (env_ok 9 []) (snd (delete_offer (env_ok 9 []) world0))) = (200, NullBody)"
proof -
  have h: "\<not> throws (env_ok 9 []) 0" "offers_unique world1" "offers_unique world0"
    by (simp_all add: throws_def env_ok_def offers_unique_def world1_def world0_def)
  have o: "offers world1 \<noteq> []" "offers world0 = []"
    by (simp_all add: world1_def world0_def)
  from delete_offer_then_get[OF h(1) h(1) h(2)] delete_offer_then_get[OF h(1) h(1) h(3)] h o
  show ?thesis by simp
qed

section \<open>C7: contact inquiries\<close>

text \<open>
  Claim C7: \<^verbatim>\<open>POST /api/contact/inquiries\<close> answers 400 exactly when the name, the email
  or the message is missing or empty. On a valid body, with the store answering, the
  inquiry is appended to the collection and the response is 201 with the stored inquiry
  and \<open>emailSent\<close>, which is true only when a transporter, a recipient and a sender are
  configured and the send succeeded: a failed send, or no transport, changes nothing
  but that flag.
\<close>

theorem post_inquiry_contract:
  "(fst (fst (post_inquiry cfg e req w)) = 400) =
     (\<not> truthy (ir_name req) \<or> \<not> truthy (ir_email req) \<or> \<not> truthy (ir_message req)) \<and>
   (ir_name req = Some n \<and> n \<noteq> [] \<and> ir_email req = Some m \<and> m \<noteq> [] \<and>
    ir_message req = Some t \<and> t \<noteq> [] \<and> \<not> throws e 0 \<longrightarrow>
      fst (post_inquiry cfg e req w) =
        (201, InquiryBody
                \<lparr>ci_name = n, ci_email = m, ci_phone = default_empty (ir_phone req),
                 ci_message = t, ci_createdAt = now e\<rparr>
                (mailTransporter cfg \<and> CONTACT_FROM_EMAIL cfg \<noteq> [] \<and> sendMail_ok e)) \<and>
      contactInquiries (snd (post_inquiry cfg e req w)) =
        contactInquiries w @
        [\<lparr>ci_name = n, ci_email = m, ci_phone = default_empty (ir_phone req),
          ci_message = t, ci_createdAt = now e\<rparr>])"
  by (auto simp: post_inquiry_def truthy_def io_defs ContactInquiry_create_def
      ContactInquiry_valid_def notify_def mailTransporter_def split: option.splits)

text \<open>No relay configured: the inquiry is stored and answered 201 with \<open>emailSent\<close> false;
  without a message the answer is 400.\<close>

theorem post_inquiry_contract_witness:
  "\<not> throws (env_ok 9 []) 0 \<and> \<not> mailTransporter no_mail \<and>
   fst (post_inquiry no_mail (env_ok 9 [])
          \<lparr>ir_name = Some ''A'', ir_email = Some ''a@b.com'', ir_phone = None,
           ir_message = Some ''hi''\<rparr> world0) =
     (201, InquiryBody
             \<lparr>ci_name = ''A'', ci_email = ''a@b.com'', ci_phone = [], ci_message = ''hi'',
              ci_createdAt = 9\<rparr> False) \<and>
   contactInquiries
     (snd (post_inquiry no_mail (env_ok 9 [])
             \<lparr>ir_name = Some ''A'', ir_email = Some ''a@b.com'', ir_phone = None,
              ir_message = Some ''hi''\<rparr> world0)) =
     [\<lparr>ci_name = ''A'', ci_email = ''a@b.com'', ci_phone = [], ci_message = ''hi'',
       ci_createdAt = 9\<rparr>] \<and>
   fst (fst (post_inquiry no_mail (env_ok 9 [])
               \<lparr>ir_name = Some ''A'', ir_email = Some ''a@b.com'', ir_phone = None,
                ir_message = None\<rparr> world0)) = 400"
proof -
  have h: "\<not> throws (env_ok 9 []) 0" "\<not> mailTransporter no_mail" "\<not> truthy None"
    by (simp_all add: throws_def env_ok_def mailTransporter_def no_mail_def truthy_def)
  from post_inquiry_contract[of no_mail "env_ok 9 []"
      "\<lparr>ir_name = Some ''A'', ir_email = Some ''a@b.com'', ir_phone = None,
        ir_message = Some ''hi''\<rparr>" world0 "''A''" "''a@b.com''" "''hi''"]
    post_inquiry_contract[of no_mail "env_ok 9 []"
      "\<lparr>ir_name = Some ''A'', ir_email = Some ''a@b.com'', ir_phone = None,
        ir_message = None\<rparr>" world0]
    h
  show ?thesis by (simp add: default_empty_def env_ok_def world0_def)
qed

section \<open>C8: loading the cards of a branch that has none\<close>

text \<open>
  Claim C8, as stated, promises \<open>{cards: []}\<close> for every branch query without a stored
  record and 400 only when the query is omitted. The query \<^verbatim>\<open>?branch=\<close> carries a branch,
  the empty string, for which no record exists, and the guard \<^verbatim>\<open>!branch\<close> answers 400.
\<close>

theorem load_cards_empty_branch_counterexample:
  "find (\<lambda>d. cd_branch d = []) (cardDatas world1) = None \<and>
   fst (load_cards (env_ok 4 []) (Some []) world1) = (400, ErrorBody ''Missing branch'') \<and>
   fst (load_cards (env_ok 4 []) (Some []) world1) \<noteq> (200, CardsBody [])"
  by (simp add: load_cards_def truthy_def world1_def)

text \<open>
  Claim C8, amended: with a non-empty branch query for which no record is stored, and
  the store answering the read, \<^verbatim>\<open>GET /api/load-cards\<close> answers 200 with \<open>{cards: []}\<close> and
  leaves the collections as they are; a request without the branch query, or with an
  empty one, answers 400.
\<close>

theorem load_cards_unknown_branch:
  assumes "b \<noteq> []" and "\<not> throws e 0" and "\<forall>d\<in>set (cardDatas w). cd_branch d \<noteq> b"
  shows "fst (load_cards e (Some b) w) = (200, CardsBody []) \<and>
         cardDatas (snd (load_cards e (Some b) w)) = cardDatas w \<and>
         images (snd (load_cards e (Some b) w)) = images w \<and>
         fst (load_cards e None w) = (400, ErrorBody ''Missing branch'') \<and>
         fst (load_cards e (Some []) w) = (400, ErrorBody ''Missing branch'')"
proof -
  from assms(3) have "findIndex (\<lambda>d. cd_branch d = b) (cardDatas w) = None"
    by (simp add: findIndex_None_iff)
  with assms(1,2) show ?thesis
    by (simp add: load_cards_def truthy_def io_defs CardData_findOne_def)
qed

text \<open>The store holds cards for \<open>north\<close> and \<open>south\<close>, none for \<open>unknown\<close>.\<close>

theorem load_cards_unknown_branch_witness:
  "''unknown'' \<noteq> [] \<and> \<not> throws (env_ok 4 []) 0 \<and>
   find (\<lambda>d. cd_branch d = ''unknown'') (cardDatas world1) = None \<and>
   fst (load_cards (env_ok 4 []) (Some ''unknown'') world1) = (200, CardsBody []) \<and>
   fst (load_cards (env_ok 4 []) None world1) = (400, ErrorBody ''Missing branch'')"
proof -
  have h1: "''unknown'' \<noteq> []" by simp
  have h2: "\<not> throws (env_ok 4 []) 0" by (simp add: throws_def env_ok_def)
  have h3: "\<forall>d\<in>set (cardDatas world1). cd_branch d \<noteq> ''unknown''"
    by (simp add: world1_def)
  have h3': "find (\<lambda>d. cd_branch d = ''unknown'') (cardDatas world1) = None"
    by (simp add: world1_def)
  from load_cards_unknown_branch[OF h1 h2 h3] h1 h2 h3' show ?thesis by simp
qed

section \<open>C9: a slot outside the schema's enum\<close>

text \<open>
  Claim C9: the validation of \<^verbatim>\<open>POST /api/upload\<close> only asks the slot to be non-empty, so
  with the other fields valid no non-empty slot is answered 400. For a slot other than
  \<open>before\<close> and \<open>after\<close> the response is 500 and the card sets are untouched (the two
  assignments to \<open>beforeImg\<close> and \<open>afterImg\<close> would change nothing either); when the remote
  upload resolves and the delete is answered, the handler has by then performed the
  remote upload and the image delete, and stops at the image insert, which the schema
  refuses.
\<close>

theorem upload_slot_outside_enum:
  assumes "up_file req \<noteq> None" and "truthy (up_branch req)"
      and "Number_isFinite (Number lit (up_cardNum req))"
      and "up_slot req = Some s" and "s \<noteq> []"
  shows "fst (fst (upload lit e req w)) \<noteq> 400 \<and>
         (s \<notin> set [''before'', ''after''] \<longrightarrow>
            fst (upload lit e req w) = (500, ErrorBody ''Image upload failed'') \<and>
            cardDatas (snd (upload lit e req w)) = cardDatas w \<and>
            set_slot s u c = c \<and>
            (cloud e = Resolved u \<and> \<not> throws e 0 \<longrightarrow>
               trace (snd (upload lit e req w)) =
                 trace w @ [CloudinaryUpload, ImageDeleteMany, ImageSave] \<and>
               images (snd (upload lit e req w)) =
                 filter (\<lambda>d. \<not> (img_cardNum d = Number lit (up_cardNum req) \<and> img_slot d = s))
                   (images w)))"
proof -
  let ?n = "Number lit (up_cardNum req)"
  let ?b = "the (up_branch req)"
  have v: "\<not> upload_invalid lit req"
    using assms by (simp add: upload_invalid_def truthy_def)
  have run: "upload lit e req w =
      catch_io (upload_try e ?b ?n s) (500, ErrorBody ''Image upload failed'') w"
    using upload_run[OF v, of e w] assms(4) by simp
  have a: "fst (fst (upload lit e req w)) \<noteq> 400"
    by (simp add: run upload_never_400_after_validation)
  have b: "fst (upload lit e req w) = (500, ErrorBody ''Image upload failed'')"
    "cardDatas (snd (upload lit e req w)) = cardDatas w"
    if "s \<notin> set [''before'', ''after'']"
    using upload_try_bad_slot[OF that, of e ?b ?n w]
    by (auto simp: run catch_io_snd catch_io_Inl)
  have c: "trace (snd (upload lit e req w)) =
             trace w @ [CloudinaryUpload, ImageDeleteMany, ImageSave]"
    "images (snd (upload lit e req w)) =
       filter (\<lambda>d. \<not> (img_cardNum d = ?n \<and> img_slot d = s)) (images w)"
    if "s \<notin> set [''before'', ''after'']" "cloud e = Resolved u" "\<not> throws e 0"
    using upload_try_bad_slot_trace[OF that, of ?b ?n w]
    by (simp_all add: run catch_io_snd)
  from a b c show ?thesis by (simp add: set_slot_def)
qed

text \<open>The slot \<open>middle\<close>: the image is uploaded, the delete runs, the insert fails.\<close>

theorem upload_slot_outside_enum_witness:
  "up_file (req1\<lparr>up_slot := Some ''middle''\<rparr>) \<noteq> None \<and>
   truthy (up_branch (req1\<lparr>up_slot := Some ''middle''\<rparr>)) \<and>
   Number_isFinite (Number decimal_lit (up_cardNum (req1\<lparr>up_slot := Some ''middle''\<rparr>))) \<and>
   ''middle'' \<noteq> [] \<and> ''middle'' \<notin> set [''before'', ''after''] \<and>
   cloud (env_ok 5 ''new7'') = Resolved ''new7'' \<and> \<not> throws (env_ok 5 ''new7'') 0 \<and>
   fst (upload decimal_lit (env_ok 5 ''new7'') (req1\<lparr>up_slot := Some ''middle''\<rparr>) world1) =
     (500, ErrorBody ''Image upload failed'') \<and>
   cardDatas (snd (upload decimal_lit (env_ok 5 ''new7'') (req1\<lparr>up_slot := Some ''middle''\<rparr>)
                     world1)) = cardDatas world1 \<and>
   trace (snd (upload decimal_lit (env_ok 5 ''new7'') (req1\<lparr>up_slot := Some ''middle''\<rparr>)
                 world1)) = [CloudinaryUpload, ImageDeleteMany, ImageSave] \<and>
   images (snd (upload decimal_lit (env_ok 5 ''new7'') (req1\<lparr>up_slot := Some ''middle''\<rparr>)
                  world1)) = images world1"
proof -
  let ?r = "req1\<lparr>up_slot := Some ''middle''\<rparr>"
  have h: "up_file ?r \<noteq> None" "truthy (up_branch ?r)"
    "Number_isFinite (Number decimal_lit (up_cardNum ?r))"
    "up_slot ?r = Some ''middle''" "''middle'' \<noteq> []"
    by (simp_all add: req1_def truthy_def Number_def Number_isFinite_def decimal_lit_def
        isStrWhiteSpaceChar_def)
  have g: "''middle'' \<notin> set [''before'', ''after'']"
    "cloud (env_ok 5 ''new7'') = Resolved ''new7''" "\<not> throws (env_ok 5 ''new7'') 0"
    by (simp_all add: env_ok_def throws_def)
  have f: "filter (\<lambda>d. \<not> (img_cardNum d = Number decimal_lit (up_cardNum ?r) \<and>
                           img_slot d = ''middle'')) (images world1) = images world1"
    by (simp add: world1_def)
  have t: "trace world1 = []" by (simp add: world1_def)
  from upload_slot_outside_enum[OF h, of "env_ok 5 ''new7''" world1 "''new7''"] h(1,2,3,5) g f t
  show ?thesis by simp
qed

section \<open>C10: a blank card number is card 0\<close>

text \<open>
  Claim C10: a \<open>cardNum\<close> field that is the empty string, or white space only, is not
  rejected by \<^verbatim>\<open>POST /api/upload\<close>: \<^verbatim>\<open>Number\<close> makes it 0, which is finite, so with the
  other fields present the answer is never 400; and when the remote upload resolves,
  the slot is valid and the store answers, the request is carried out for card number 0:
  the response is 201 with \<open>cardNum\<close> 0 and the image record is stored under card 0.
\<close>

theorem upload_blank_cardNum:
  assumes "up_file req \<noteq> None" and "up_branch req = Some b" and "b \<noteq> []"
      and "up_slot req = Some s" and "s \<noteq> []"
      and "up_cardNum req = Some c" and "list_all isStrWhiteSpaceChar c"
  shows "Number lit (up_cardNum req) = Finite 0 \<and>
         fst (fst (upload lit e req w)) \<noteq> 400 \<and>
         (cloud e = Resolved u \<and> u \<noteq> [] \<and> store_faults e = [] \<and>
          s \<in> set [''before'', ''after''] \<longrightarrow>
            fst (upload lit e req w) = (201, UploadBody u (Finite 0) s b) \<and>
            images (snd (upload lit e req w)) =
              filter (\<lambda>d. \<not> (img_cardNum d = Finite 0 \<and> img_slot d = s)) (images w) @
              [\<lparr>img_url = u, img_cardNum = Finite 0, img_slot = s, img_createdAt = now e\<rparr>])"
proof -
  have n: "Number lit (up_cardNum req) = Finite 0"
    using assms(6,7) by (simp add: Number_blank)
  have v: "\<not> upload_invalid lit req"
    using assms n by (simp add: upload_invalid_def truthy_def Number_isFinite_def)
  have run: "upload lit e req w =
      catch_io (upload_try e b (Finite 0) s) (500, ErrorBody ''Image upload failed'') w"
    using upload_run[OF v, of e w] assms(2,4) n by simp
  have a: "fst (fst (upload lit e req w)) \<noteq> 400"
    by (simp add: run upload_never_400_after_validation)
  have ok: "fst (upload lit e req w) = (201, UploadBody u (Finite 0) s b) \<and>
            images (snd (upload lit e req w)) =
              filter (\<lambda>d. \<not> (img_cardNum d = Finite 0 \<and> img_slot d = s)) (images w) @
              [\<lparr>img_url = u, img_cardNum = Finite 0, img_slot = s, img_createdAt = now e\<rparr>]"
    if h: "cloud e = Resolved u" "u \<noteq> []" "store_faults e = []"
      "s \<in> set [''before'', ''after'']"
  proof -
    have iv: "Image_valid (new_image e u (Finite 0) s)"
      using h assms(5) by (auto simp: Image_valid_def new_image_def)
    have r: "fst (upload_try e b (Finite 0) s w) = Inr (201, UploadBody u (Finite 0) s b)"
      by (rule upload_try_ok[OF h(1) h(3) iv assms(3)])
    then have t: "upload_try e b (Finite 0) s w =
        (Inr (201, UploadBody u (Finite 0) s b), snd (upload_try e b (Finite 0) s w))"
      by (cases "upload_try e b (Finite 0) s w") simp
    from upload_try_images[OF t] h(1)
    have "images (snd (upload_try e b (Finite 0) s w)) =
        filter (\<lambda>d. \<not> (img_cardNum d = Finite 0 \<and> img_slot d = s)) (images w) @
          [new_image e u (Finite 0) s]" by auto
    with r show ?thesis by (simp add: run catch_io_Inr catch_io_snd new_image_def)
  qed
  from n a ok show ?thesis by blast
qed

text \<open>The field \<open>cardNum\<close> sent as one space: the upload is stored as card 0.\<close>

theorem upload_blank_cardNum_witness:
  "up_file (req1\<lparr>up_cardNum := Some '' ''\<rparr>) \<noteq> None \<and> ''north'' \<noteq> [] \<and> ''before'' \<noteq> [] \<and>
   list_all isStrWhiteSpaceChar '' '' \<and> list_all isStrWhiteSpaceChar [] \<and>
   cloud (env_ok 5 ''new0'') = Resolved ''new0'' \<and> ''new0'' \<noteq> [] \<and>
   store_faults (env_ok 5 ''new0'') = [] \<and>
   Number decimal_lit (Some '' '') = Finite 0 \<and>
   fst (upload decimal_lit (env_ok 5 ''new0'') (req1\<lparr>up_cardNum := Some '' ''\<rparr>) world1) =
     (201, UploadBody ''new0'' (Finite 0) ''before'' ''north'') \<and>
   images (snd (upload decimal_lit (env_ok 5 ''new0'') (req1\<lparr>up_cardNum := Some '' ''\<rparr>)
                  world1)) =
     images world1 @
     [\<lparr>img_url = ''new0'', img_cardNum = Finite 0, img_slot = ''before'', img_createdAt = 5\<rparr>] \<and>
   fst (upload decimal_lit (env_ok 5 ''new0'') (req1\<lparr>up_cardNum := Some []\<rparr>) world1) =
     (201, UploadBody ''new0'' (Finite 0) ''before'' ''north'')"
proof -
  let ?r = "req1\<lparr>up_cardNum := Some '' ''\<rparr>"
  let ?z = "req1\<lparr>up_cardNum := Some []\<rparr>"
  have h: "up_file ?r \<noteq> None" "up_branch ?r = Some ''north''" "''north'' \<noteq> []"
    "up_slot ?r = Some ''before''" "''before'' \<noteq> []" "up_cardNum ?r = Some '' ''"
    "list_all isStrWhiteSpaceChar '' ''"
    by (simp_all add: req1_def isStrWhiteSpaceChar_def)
  have h0: "up_file ?z \<noteq> None" "up_branch ?z = Some ''north''" "''north'' \<noteq> []"
    "up_slot ?z = Some ''before''" "''before'' \<noteq> []" "up_cardNum ?z = Some []"
    "list_all isStrWhiteSpaceChar []"
    by (simp_all add: req1_def)
  have g: "cloud (env_ok 5 ''new0'') = Resolved ''new0''" "''new0'' \<noteq> []"
    "store_faults (env_ok 5 ''new0'') = []" "now (env_ok 5 ''new0'') = 5"
    by (simp_all add: env_ok_def)
  have f: "filter (\<lambda>d. \<not> (img_cardNum d = Finite 0 \<and> img_slot d = ''before'')) (images world1) =
           images world1"
    by (simp add: world1_def)
  from upload_blank_cardNum[OF h, of decimal_lit "env_ok 5 ''new0''" world1 "''new0''"]
    upload_blank_cardNum[OF h0, of decimal_lit "env_ok 5 ''new0''" world1 "''new0''"]
    h(1,3,5,7) h0(7) g f
  show ?thesis by simp
qed

end
